theory Spec2Isabelle
  imports Complex_Main "HOL-Library.Word"
begin

unbundle bit_operations_syntax

section \<open>JavaScript values\<close>

text \<open>
  The handlers of \<^verbatim>\<open>server.js\<close> and of the controller module read the fields of
  \<^verbatim>\<open>req.body\<close>, the object that \<^verbatim>\<open>express.json()\<close> parsed from the request. A field
  is any JSON value, or \<^verbatim>\<open>undefined\<close> when the key is absent.

  \<^item> \<open>JNum x\<close> is a finite number: an IEEE double, given by its value, which is a
    rational. Negative zero is identified with zero; no operation of the handlers
    (\<^verbatim>\<open>!\<close>, \<^verbatim>\<open>===\<close>, \<^verbatim>\<open>*\<close>, the conversion to a string) tells them apart.
  \<^item> \<open>JInfinity\<close> and \<open>JNegInfinity\<close> are the infinities, which \<^verbatim>\<open>JSON.parse\<close> gives for
    a literal beyond the range of the doubles and which arithmetic produces.
  \<^item> \<open>JNaN\<close> is never in a parsed body; arithmetic produces it.
  \<^item> \<open>JObj r\<close> is an object or an array. All the handlers do with one is test its
    truthiness and convert it to a primitive: \<open>r = Some s\<close> when that conversion gives
    the string \<open>s\<close> (\<^verbatim>\<open>"[object Object]"\<close> for a plain object, the joined elements for
    an array), \<open>r = None\<close> when it throws a TypeError (an object whose own
    \<^verbatim>\<open>toString\<close> property is not callable, such as \<^verbatim>\<open>{"toString": 1}\<close>).
  \<^item> A character of a string is a code unit below 256: the strings of the model are
    those of ASCII and Latin-1 (identifiers, keys and hex digests are ASCII).
\<close>

datatype jsval =
    JUndefined
  | JNull
  | JBool bool
  | JNum rat
  | JInfinity
  | JNegInfinity
  | JNaN
  | JStr string
  | JObj "string option"

text \<open>The operator \<^verbatim>\<open>!v\<close>: true exactly on the falsy values.\<close>

fun js_not :: "jsval \<Rightarrow> bool" where
  "js_not JUndefined = True"
| "js_not JNull = True"
| "js_not (JBool b) = (b = False)"
| "js_not (JNum x) = (x = 0)"
| "js_not JInfinity = False"
| "js_not JNegInfinity = False"
| "js_not JNaN = True"
| "js_not (JStr s) = (s = [])"
| "js_not (JObj r) = False"

text \<open>
  A thrown value, as the \<^verbatim>\<open>catch\<close> blocks read it: an \<^verbatim>\<open>Error\<close> of the language
  (only \<^verbatim>\<open>message\<close> is set) or the object the gateway SDK rejects with. A field is
  \<open>None\<close> when the property is absent. \<open>error\<close> is the nested \<^verbatim>\<open>error.error\<close> object:
  \<open>None\<close> when absent, \<open>Some d\<close> when it is an object whose \<^verbatim>\<open>description\<close> is \<open>d\<close>.
\<close>

record thrown =
  message :: "string option"
  code :: "string option"
  description :: "string option"
  statusCode :: "int option"
  error :: "string option option"

definition Error :: "string \<Rightarrow> thrown" where
  "Error msg = \<lparr>message = Some msg, code = None, description = None, statusCode = None,
                error = None\<rparr>"

definition TypeError :: thrown where
  "TypeError = Error ''Cannot convert object to primitive value''"

text \<open>\<^verbatim>\<open>s || dflt\<close> for an optional string: the empty string is falsy too.\<close>

fun or_else :: "string option \<Rightarrow> string \<Rightarrow> string" where
  "or_else None dflt = dflt"
| "or_else (Some s) dflt = (if s = [] then dflt else s)"

subsection \<open>Rounding to a double\<close>

text \<open>
  The result of an arithmetic operation is the exact result rounded to the nearest
  double, ties to the even significand: 53 significant bits, the least exponent that
  of the subnormals, and infinity from \<open>2\<^sup>1\<^sup>0\<^sup>2\<^sup>4\<close> on.
\<close>

function bit_length :: "int \<Rightarrow> nat" where
  "bit_length n = (if n \<le> 0 then 0 else Suc (bit_length (n div 2)))"
  by pat_completeness auto
termination
  by (relation "measure nat") auto

declare bit_length.simps [simp del]

definition pow_int :: "rat \<Rightarrow> int \<Rightarrow> rat" where
  "pow_int b k = (if 0 \<le> k then b ^ nat k else 1 / b ^ nat (- k))"

text \<open>The exponent \<open>e\<close> with \<open>2\<^sup>e \<le> a < 2\<^sup>e\<^sup>+\<^sup>1\<close>, for \<open>a > 0\<close>: the bit lengths of numerator
  and denominator give it up to one.\<close>

definition floor_log2 :: "rat \<Rightarrow> int" where
  "floor_log2 a =
     (case quotient_of a of
        (p, q) \<Rightarrow>
          (let e = int (bit_length p) - int (bit_length q)
           in if pow_int 2 e \<le> a then e else e - 1))"

definition round_half_even :: "rat \<Rightarrow> int" where
  "round_half_even m =
     (let f = \<lfloor>m\<rfloor>; d = m - of_int f
      in if d < 1 / 2 then f else if 1 / 2 < d then f + 1 else if even f then f else f + 1)"

definition round_double :: "rat \<Rightarrow> jsval" where
  "round_double x =
     (if x = 0 then JNum 0
      else
        let a = \<bar>x\<bar>;
            e = max (floor_log2 a) (- 1022);
            q = pow_int 2 (e - 52);
            y = of_int (round_half_even (a / q)) * q
        in if pow_int 2 1024 \<le> y then (if x < 0 then JNegInfinity else JInfinity)
           else JNum (if x < 0 then - y else y))"

subsection \<open>Conversion to a string\<close>

definition digit_char :: "nat \<Rightarrow> char" where
  "digit_char d = ''0123456789'' ! d"

function dec_digits :: "int \<Rightarrow> string" where
  "dec_digits n =
     (if n < 10 then [digit_char (nat n)]
      else dec_digits (n div 10) @ [digit_char (nat (n mod 10))])"
  by pat_completeness auto
termination
  by (relation "measure nat") auto

declare dec_digits.simps [simp del]

text \<open>
  The decimal exponent of \<open>a > 0\<close>: the \<open>n\<close> with \<open>10\<^sup>n \<le> a < 10\<^sup>n\<^sup>+\<^sup>1\<close>. The search goes up
  from 1 or down from 1; the bit length of the numerator, respectively of the
  denominator, bounds its number of steps.
\<close>

fun log10_up :: "nat \<Rightarrow> rat \<Rightarrow> int" where
  "log10_up 0 a = 0"
| "log10_up (Suc f) a = (if 10 \<le> a then 1 + log10_up f (a / 10) else 0)"

fun log10_down :: "nat \<Rightarrow> rat \<Rightarrow> int" where
  "log10_down 0 a = 0"
| "log10_down (Suc f) a = (if a < 1 then log10_down f (a * 10) - 1 else 0)"

definition floor_log10 :: "rat \<Rightarrow> int" where
  "floor_log10 a =
     (case quotient_of a of
        (p, q) \<Rightarrow> if 1 \<le> a then log10_up (bit_length p) a else log10_down (bit_length q) a)"

text \<open>
  \<^verbatim>\<open>Number.prototype.toString\<close> takes the shortest decimal numeral \<open>s \<times> 10\<^sup>n\<^sup>-\<^sup>k\<close>, of
  \<open>k\<close> digits, that rounds to the number, and of these the one closest to it. With
  \<open>n\<close> the number of digits before the decimal point of \<open>a\<close>, the candidates of \<open>k\<close>
  digits are the two that enclose \<open>a\<close>; \<open>k\<close> runs from 1, and 17 digits always
  suffice for a double.
\<close>

fun shortest :: "nat \<Rightarrow> nat \<Rightarrow> rat \<Rightarrow> int \<Rightarrow> int \<times> nat" where
  "shortest 0 k a n = (\<lfloor>a / pow_int 10 (n - int k)\<rfloor>, k)"
| "shortest (Suc f) k a n =
     (let u = pow_int 10 (n - int k);
          lo = \<lfloor>a / u\<rfloor>;
          hi = lo + 1;
          below = a - of_int lo * u;
          above = of_int hi * u - a;
          ok_lo = (round_double (of_int lo * u) = JNum a);
          ok_hi = (round_double (of_int hi * u) = JNum a)
      in if ok_lo \<and> ok_hi then
           (if below < above then lo else if above < below then hi
            else if even lo then lo else hi, k)
         else if ok_lo then (lo, k)
         else if ok_hi then (hi, k)
         else shortest f (Suc k) a n)"

text \<open>
  The digits \<open>ds\<close> of \<open>s\<close> with \<open>n\<close> digits before the decimal point: plain notation
  up to \<open>10\<^sup>2\<^sup>1\<close> and down to \<open>10\<^sup>-\<^sup>6\<close>, exponent notation beyond.
\<close>

definition format_digits :: "string \<Rightarrow> int \<Rightarrow> string" where
  "format_digits ds n =
     (let k = int (length ds)
      in if k \<le> n \<and> n \<le> 21 then ds @ replicate (nat (n - k)) (CHR ''0'')
         else if 0 < n \<and> n \<le> 21 then take (nat n) ds @ ''.'' @ drop (nat n) ds
         else if - 6 < n \<and> n \<le> 0 then ''0.'' @ replicate (nat (- n)) (CHR ''0'') @ ds
         else (if k = 1 then ds else hd ds # ''.'' @ tl ds)
              @ ''e'' @ (if n - 1 < 0 then ''-'' else ''+'') @ dec_digits \<bar>n - 1\<bar>)"

text \<open>When the upper candidate is \<open>10\<^sup>k\<close> its numeral is the digit 1, one place higher.\<close>

definition num_to_string :: "rat \<Rightarrow> string" where
  "num_to_string x =
     (if x = 0 then ''0''
      else
        let a = \<bar>x\<bar>;
            n = floor_log10 a + 1;
            digits = (case shortest 17 1 a n of
                        (s, k) \<Rightarrow>
                          if s = 10 ^ k then format_digits (dec_digits (s div 10)) (n + 1)
                          else format_digits (dec_digits s) n)
        in if x < 0 then CHR ''-'' # digits else digits)"

text \<open>
  \<open>ToString\<close> as string concatenation and template literals apply it (after
  \<open>ToPrimitive\<close> on an object).
\<close>

fun ToString :: "jsval \<Rightarrow> thrown + string" where
  "ToString JUndefined = Inr ''undefined''"
| "ToString JNull = Inr ''null''"
| "ToString (JBool b) = Inr (if b then ''true'' else ''false'')"
| "ToString (JNum x) = Inr (num_to_string x)"
| "ToString JInfinity = Inr ''Infinity''"
| "ToString JNegInfinity = Inr ''-Infinity''"
| "ToString JNaN = Inr ''NaN''"
| "ToString (JStr s) = Inr s"
| "ToString (JObj None) = Inl TypeError"
| "ToString (JObj (Some s)) = Inr s"

subsection \<open>Numbers: \<^verbatim>\<open>amount * 100\<close>\<close>

text \<open>
  \<open>ToNumber\<close>. The numeric value of a string (\<open>StringToNumber\<close>: surrounding white
  space, signs, decimal, hexadecimal and exponent notation) is the language's own
  grammar and is taken as the parameter \<open>str_num\<close>, which returns a number.
\<close>

fun ToNumber :: "(string \<Rightarrow> jsval) \<Rightarrow> jsval \<Rightarrow> thrown + jsval" where
  "ToNumber str_num JUndefined = Inr JNaN"
| "ToNumber str_num JNull = Inr (JNum 0)"
| "ToNumber str_num (JBool b) = Inr (JNum (if b then 1 else 0))"
| "ToNumber str_num (JNum x) = Inr (JNum x)"
| "ToNumber str_num JInfinity = Inr JInfinity"
| "ToNumber str_num JNegInfinity = Inr JNegInfinity"
| "ToNumber str_num JNaN = Inr JNaN"
| "ToNumber str_num (JStr s) = Inr (str_num s)"
| "ToNumber str_num (JObj None) = Inl TypeError"
| "ToNumber str_num (JObj (Some s)) = Inr (str_num s)"

text \<open>\<^verbatim>\<open>v * m\<close> for a numeric literal \<open>m\<close>: the product of two finite numbers is the
  exact product rounded; an infinity keeps or changes its sign with the sign of \<open>m\<close>.\<close>

definition js_times :: "(string \<Rightarrow> jsval) \<Rightarrow> jsval \<Rightarrow> rat \<Rightarrow> thrown + jsval" where
  "js_times str_num v m =
     (case ToNumber str_num v of
        Inl e \<Rightarrow> Inl e
      | Inr (JNum x) \<Rightarrow> Inr (round_double (x * m))
      | Inr JInfinity \<Rightarrow>
          Inr (if m = 0 then JNaN else if 0 < m then JInfinity else JNegInfinity)
      | Inr JNegInfinity \<Rightarrow>
          Inr (if m = 0 then JNaN else if 0 < m then JNegInfinity else JInfinity)
      | Inr _ \<Rightarrow> Inr JNaN)"

subsection \<open>\<^verbatim>\<open>String.prototype.trim\<close>\<close>

text \<open>
  The white space and the line terminators are removed at both ends. Among the code
  units below 256 these are tab, line feed, vertical tab, form feed, carriage return,
  space and the no-break space.
\<close>

definition is_white_space :: "char \<Rightarrow> bool" where
  "is_white_space c =
     (c \<in> set [CHR 0x09, CHR 0x0A, CHR 0x0B, CHR 0x0C, CHR 0x0D, CHR '' '', CHR 0xA0])"

definition trim :: "string \<Rightarrow> string" where
  "trim s = rev (dropWhile is_white_space (rev (dropWhile is_white_space s)))"

section \<open>The request body\<close>

text \<open>\<^verbatim>\<open>req.body\<close>: reading a key that the object does not have gives \<^verbatim>\<open>undefined\<close>.\<close>

type_synonym req_body = "string \<Rightarrow> jsval"

definition body_of :: "(string \<times> jsval) list \<Rightarrow> req_body" where
  "body_of kvs k = (case map_of kvs k of None \<Rightarrow> JUndefined | Some v \<Rightarrow> v)"

section \<open>The payment gateway\<close>

text \<open>
  A payment as the gateway returns it. The handlers read \<^verbatim>\<open>status\<close> and
  \<^verbatim>\<open>currency\<close>; \<open>attrs\<close> holds the other attributes (id, amount, ...), which are
  only passed through.
\<close>

record payment =
  status :: string
  currency :: string
  attrs :: "(string \<times> jsval) list"

type_synonym order = "(string \<times> jsval) list"

text \<open>The listing \<^verbatim>\<open>payments.all\<close> resolves with: \<open>items = None\<close> when the property is
  missing (falsy).\<close>

record payment_list =
  count :: jsval
  items :: "payment list option"

text \<open>
  The calls a handler issues to the SDK client, in order, with their arguments:
  \<^verbatim>\<open>orders.create({amount, currency, receipt})\<close>, \<^verbatim>\<open>payments.fetch(id)\<close>,
  \<^verbatim>\<open>payments.capture(id, amount)\<close> (third argument \<open>None\<close>) or
  \<^verbatim>\<open>payments.capture(id, amount, {currency})\<close> (\<open>Some currency\<close>), and
  \<^verbatim>\<open>payments.all({from, to, count, skip})\<close>.
\<close>

datatype gateway_call =
    OrdersCreate jsval jsval string
  | PaymentsFetch jsval
  | PaymentsCapture jsval jsval "string option"
  | PaymentsAll int int int int

text \<open>
  The gateway is outside the repository: the client is a record of functions giving,
  for each call, the value the promise resolves with (\<open>Inr\<close>) or rejects with (\<open>Inl\<close>).
  A handler issues at most one fetch followed by at most one capture, so functions of
  the arguments describe every gateway a single request can meet.
\<close>

record gateway =
  orders_create :: "jsval \<Rightarrow> jsval \<Rightarrow> string \<Rightarrow> thrown + order"
  payments_fetch :: "jsval \<Rightarrow> thrown + payment"
  payments_capture :: "jsval \<Rightarrow> jsval \<Rightarrow> string option \<Rightarrow> thrown + payment"
  payments_all :: "int \<Rightarrow> int \<Rightarrow> int \<Rightarrow> int \<Rightarrow> thrown + payment_list option"

section \<open>Responses\<close>

text \<open>
  What \<^verbatim>\<open>res.status(c).json(v)\<close> sends: the status code (200 when \<^verbatim>\<open>res.json\<close> is called
  alone) and the JSON value, with object literals as association lists in the order
  of the source.
\<close>

datatype json =
    JsonBool bool
  | JsonStr string
  | JsonNull
  | JsonVal jsval
  | JsonPayment payment
  | JsonPayments "payment list"
  | JsonOrder order
  | JsonErr "string option"
  | JsonObj "(string \<times> json) list"

record response =
  status_code :: nat
  body :: json

fun field :: "string \<Rightarrow> json \<Rightarrow> json option" where
  "field k (JsonObj kvs) = map_of kvs k"
| "field k _ = None"

section \<open>Signature verification\<close>

text \<open>
  \<^verbatim>\<open>crypto.createHmac('sha256', key).update(msg).digest()\<close> is the platform's
  HMAC-SHA256; the handlers take it as the parameter \<open>hmac\<close>, from key and message to
  the bytes of the digest.
\<close>

type_synonym hmac_fn = "string \<Rightarrow> string \<Rightarrow> 8 word list"

text \<open>\<^verbatim>\<open>.digest('hex')\<close>: two lowercase hexadecimal digits per byte, high nibble first.\<close>

definition hex_digit :: "nat \<Rightarrow> char" where
  "hex_digit d = ''0123456789abcdef'' ! d"

definition hex_byte :: "8 word \<Rightarrow> string" where
  "hex_byte w = [hex_digit (unat (drop_bit 4 w)), hex_digit (unat (w AND 0x0F))]"

definition digest_hex :: "8 word list \<Rightarrow> string" where
  "digest_hex bs = concat (map hex_byte bs)"

text \<open>\<^verbatim>\<open>razorpay_order_id + '|' + razorpay_payment_id\<close>: the left operand is converted
  first.\<close>

definition sign_payload :: "jsval \<Rightarrow> jsval \<Rightarrow> thrown + string" where
  "sign_payload razorpay_order_id razorpay_payment_id =
     (case ToString razorpay_order_id of
        Inl e \<Rightarrow> Inl e
      | Inr a \<Rightarrow>
          (case ToString razorpay_payment_id of
             Inl e \<Rightarrow> Inl e
           | Inr b \<Rightarrow> Inr (a @ ''|'' @ b)))"

definition expectedSign :: "hmac_fn \<Rightarrow> string \<Rightarrow> string \<Rightarrow> string" where
  "expectedSign hmac key sign = digest_hex (hmac key sign)"

section \<open>\<^verbatim>\<open>server.js\<close>\<close>

text \<open>
  The handlers are given as functions from their inputs (the parsed body, the
  environment's secret, the gateway client, the clock) to the response sent and the
  gateway calls issued, in order. The calls to \<^verbatim>\<open>logger\<close> append to the log file and
  are left out: they read nothing back and decide nothing.
\<close>

subsection \<open>Start-up\<close>

text \<open>
  The client is constructed from the two environment variables, each trimmed: the
  result is the pair of credentials the client holds. The process exits (\<open>None\<close>)
  before any request is served when either variable is unset or empty, and when the
  SDK's constructor throws, which it does on a key id or a secret that is empty (here:
  after trimming).
\<close>

definition init_razorpay :: "string option \<Rightarrow> string option \<Rightarrow> (string \<times> string) option" where
  "init_razorpay RAZORPAY_KEY_ID RAZORPAY_KEY_SECRET =
     (case (RAZORPAY_KEY_ID, RAZORPAY_KEY_SECRET) of
        (Some key_id, Some key_secret) \<Rightarrow>
          (if key_id = [] \<or> key_secret = [] then None
           else if trim key_id = [] \<or> trim key_secret = [] then None
           else Some (trim key_id, trim key_secret))
      | _ \<Rightarrow> None)"

subsection \<open>\<^verbatim>\<open>POST /create-order\<close>\<close>

text \<open>\<open>now\<close> is \<^verbatim>\<open>Date.now()\<close>, a whole number of milliseconds. The default
  \<^verbatim>\<open>currency = 'INR'\<close> of the destructuring applies to \<^verbatim>\<open>undefined\<close> only.\<close>

definition server_create_order ::
    "(string \<Rightarrow> jsval) \<Rightarrow> gateway \<Rightarrow> int \<Rightarrow> req_body \<Rightarrow> response \<times> gateway_call list" where
  "server_create_order str_num razorpay now b =
     (let amount = b ''amount'';
          currency = (if b ''currency'' = JUndefined then JStr ''INR'' else b ''currency'');
          failed = \<lparr>status_code = 500, body = JsonObj [(''error'', JsonStr ''Failed to create order'')]\<rparr>
      in case js_times str_num amount 100 of
           Inl e \<Rightarrow> (failed, [])
         | Inr options_amount \<Rightarrow>
             (let receipt = ''order_'' @ num_to_string (of_int now);
                  calls = [OrdersCreate options_amount currency receipt]
              in case orders_create razorpay options_amount currency receipt of
                   Inl e \<Rightarrow> (failed, calls)
                 | Inr order \<Rightarrow> (\<lparr>status_code = 200, body = JsonOrder order\<rparr>, calls)))"

subsection \<open>\<^verbatim>\<open>POST /verify-payment\<close>\<close>

text \<open>The inner \<^verbatim>\<open>catch (captureError)\<close>.\<close>

definition capture_failed :: "thrown \<Rightarrow> response" where
  "capture_failed captureError =
     \<lparr>status_code = 500,
      body = JsonObj [(''verified'', JsonBool True),
                      (''captured'', JsonBool False),
                      (''error'', JsonStr (or_else (message captureError)
                                             ''Payment verified but capture failed''))]\<rparr>"

text \<open>
  \<open>key_secret\<close> is \<^verbatim>\<open>process.env.RAZORPAY_KEY_SECRET\<close>, passed to \<^verbatim>\<open>createHmac\<close> as
  it is. An exception outside the inner \<^verbatim>\<open>try\<close> (the conversion of an identifier to a
  string) reaches the outer \<^verbatim>\<open>catch\<close>.
\<close>

definition server_verify_payment ::
    "hmac_fn \<Rightarrow> string \<Rightarrow> gateway \<Rightarrow> req_body \<Rightarrow> response \<times> gateway_call list" where
  "server_verify_payment hmac key_secret razorpay b =
     (let razorpay_order_id = b ''razorpay_order_id'';
          razorpay_payment_id = b ''razorpay_payment_id'';
          razorpay_signature = b ''razorpay_signature'';
          amount = b ''amount''
      in
      if js_not razorpay_order_id \<or> js_not razorpay_payment_id \<or> js_not razorpay_signature
           \<or> js_not amount
      then (\<lparr>status_code = 400,
             body = JsonObj [(''verified'', JsonBool False),
                             (''error'', JsonStr ''Missing required parameters'')]\<rparr>, [])
      else
        case sign_payload razorpay_order_id razorpay_payment_id of
          Inl e \<Rightarrow>
            (\<lparr>status_code = 500,
              body = JsonObj [(''verified'', JsonBool False),
                              (''error'', JsonStr ''Internal server error'')]\<rparr>, [])
        | Inr sign \<Rightarrow>
            if razorpay_signature = JStr (expectedSign hmac key_secret sign) then
              (case payments_fetch razorpay razorpay_payment_id of
                 Inl captureError \<Rightarrow>
                   (capture_failed captureError, [PaymentsFetch razorpay_payment_id])
               | Inr paymentDetails \<Rightarrow>
                   if status paymentDetails = ''authorized'' then
                     (case payments_capture razorpay razorpay_payment_id amount None of
                        Inl captureError \<Rightarrow>
                          (capture_failed captureError,
                           [PaymentsFetch razorpay_payment_id,
                            PaymentsCapture razorpay_payment_id amount None])
                      | Inr payment \<Rightarrow>
                          (\<lparr>status_code = 200,
                            body = JsonObj [(''verified'', JsonBool True),
                                            (''captured'', JsonBool True),
                                            (''payment_id'', JsonVal razorpay_payment_id),
                                            (''order_id'', JsonVal razorpay_order_id),
                                            (''payment_details'', JsonPayment payment)]\<rparr>,
                           [PaymentsFetch razorpay_payment_id,
                            PaymentsCapture razorpay_payment_id amount None]))
                   else if status paymentDetails = ''captured'' then
                     (\<lparr>status_code = 200,
                       body = JsonObj [(''verified'', JsonBool True),
                                       (''captured'', JsonBool True),
                                       (''payment_id'', JsonVal razorpay_payment_id),
                                       (''order_id'', JsonVal razorpay_order_id),
                                       (''payment_details'', JsonPayment paymentDetails)]\<rparr>,
                      [PaymentsFetch razorpay_payment_id])
                   else
                     (capture_failed
                        (Error (''Payment in unexpected state: '' @ status paymentDetails)),
                      [PaymentsFetch razorpay_payment_id]))
            else
              (\<lparr>status_code = 400,
                body = JsonObj [(''verified'', JsonBool False),
                                (''error'', JsonStr ''Invalid signature'')]\<rparr>, []))"

subsection \<open>\<^verbatim>\<open>GET /payments\<close>\<close>

text \<open>The object \<^verbatim>\<open>{from, to, count: 50, skip: 0}\<close>: the last thirty days, in seconds.\<close>

definition listing_options :: "int \<Rightarrow> int \<times> int \<times> int \<times> int" where
  "listing_options now = ((now - 30 * 24 * 60 * 60 * 1000) div 1000, now div 1000, 50, 0)"

text \<open>\<^verbatim>\<open>error.error || error.description || null\<close>.\<close>

definition error_details :: "thrown \<Rightarrow> json" where
  "error_details e =
     (case error e of
        Some d \<Rightarrow> JsonErr d
      | None \<Rightarrow>
          (case description e of
             None \<Rightarrow> JsonNull
           | Some s \<Rightarrow> if s = [] then JsonNull else JsonStr s))"

text \<open>The \<^verbatim>\<open>catch\<close> block of the listing handler.\<close>

definition payments_failed :: "thrown \<Rightarrow> response" where
  "payments_failed e =
     (if statusCode e = Some 401 then
        \<lparr>status_code = 401,
         body = JsonObj [(''success'', JsonBool False),
                         (''error'', JsonStr ''Invalid Razorpay credentials'')]\<rparr>
      else if message e = Some ''Request timed out'' then
        \<lparr>status_code = 504,
         body = JsonObj [(''success'', JsonBool False),
                         (''error'', JsonStr ''Request to Razorpay timed out'')]\<rparr>
      else
        \<lparr>status_code = 500,
         body = JsonObj [(''success'', JsonBool False),
                         (''error'', JsonStr (or_else (message e) ''Failed to fetch payments'')),
                         (''details'', error_details e)]\<rparr>)"

text \<open>The success response of both listing handlers: \<^verbatim>\<open>payments.items || []\<close>.\<close>

definition payments_ok :: "payment_list \<Rightarrow> response" where
  "payments_ok payments =
     \<lparr>status_code = 200,
      body = JsonObj [(''success'', JsonBool True),
                      (''data'', JsonObj [(''count'', JsonVal (count payments)),
                                          (''items'', JsonPayments (case items payments of
                                                                      None \<Rightarrow> []
                                                                    | Some ps \<Rightarrow> ps))])]\<rparr>"

text \<open>
  The handler calls \<^verbatim>\<open>razorpay.payments.all\<close>, then awaits
  \<^verbatim>\<open>Promise.race([fetchPromise, timeoutPromise])\<close>. Which promise settles first is a
  matter of real time and is an input: \<open>timer_first\<close> holds when the ten-second timer
  rejects before the gateway's promise settles. The client exists whenever a request is
  served (see \<open>init_razorpay\<close>), so the guard \<^verbatim>\<open>if (!razorpay)\<close> never fires.
\<close>

definition server_get_payments :: "gateway \<Rightarrow> int \<Rightarrow> bool \<Rightarrow> response \<times> gateway_call list" where
  "server_get_payments razorpay now timer_first =
     (case listing_options now of
        (opt_from, opt_to, opt_count, opt_skip) \<Rightarrow>
          (let calls = [PaymentsAll opt_from opt_to opt_count opt_skip] in
           if timer_first then (payments_failed (Error ''Request timed out''), calls)
           else
             case payments_all razorpay opt_from opt_to opt_count opt_skip of
               Inl e \<Rightarrow> (payments_failed e, calls)
             | Inr None \<Rightarrow> (payments_failed (Error ''No response from Razorpay''), calls)
             | Inr (Some payments) \<Rightarrow> (payments_ok payments, calls)))"

section \<open>The controller module\<close>

text \<open>
  \<^verbatim>\<open>paymentController.js\<close> implements the same operations a second time, for the router
  of \<^verbatim>\<open>routes/paymentRoutes.js\<close>.
\<close>

subsection \<open>\<^verbatim>\<open>createOrder\<close>\<close>

definition createOrder ::
    "(string \<Rightarrow> jsval) \<Rightarrow> gateway \<Rightarrow> int \<Rightarrow> req_body \<Rightarrow> response \<times> gateway_call list" where
  "createOrder str_num razorpay now b =
     (let amount = b ''amount'';
          currency = (if b ''currency'' = JUndefined then JStr ''INR'' else b ''currency'');
          failed = \<lparr>status_code = 500, body = JsonObj [(''error'', JsonStr ''Failed to create order'')]\<rparr>
      in case js_times str_num amount 100 of
           Inl e \<Rightarrow> (failed, [])
         | Inr options_amount \<Rightarrow>
             (let receipt = ''order_'' @ num_to_string (of_int now);
                  calls = [OrdersCreate options_amount currency receipt]
              in case orders_create razorpay options_amount currency receipt of
                   Inl e \<Rightarrow> (failed, calls)
                 | Inr order \<Rightarrow> (\<lparr>status_code = 200, body = JsonOrder order\<rparr>, calls)))"

subsection \<open>\<^verbatim>\<open>verifyAndCapturePayment\<close>\<close>

text \<open>The \<^verbatim>\<open>catch\<close> block: the gateway's own description first, then the error code,
  then the message.\<close>

definition payment_processing_error :: "thrown \<Rightarrow> response" where
  "payment_processing_error e =
     (let error_description = (case error e of Some (Some d) \<Rightarrow> d | _ \<Rightarrow> [])
      in
      if error_description \<noteq> [] then
        \<lparr>status_code = 400,
         body = JsonObj [(''success'', JsonBool False), (''error'', JsonStr error_description)]\<rparr>
      else if code e = Some ''BAD_REQUEST_ERROR'' then
        \<lparr>status_code = 400,
         body = JsonObj [(''success'', JsonBool False),
                         (''error'', JsonStr (or_else (description e)
                                                ''Invalid request parameters''))]\<rparr>
      else
        \<lparr>status_code = 500,
         body = JsonObj [(''success'', JsonBool False),
                         (''error'', JsonStr (or_else (message e) ''Payment processing failed'')),
                         (''details'', (case description e of
                                          None \<Rightarrow> JsonNull
                                        | Some s \<Rightarrow> if s = [] then JsonNull else JsonStr s))]\<rparr>)"

text \<open>
  \<open>key_secret\<close> is \<^verbatim>\<open>process.env.RAZORPAY_KEY_SECRET\<close>; this handler trims it before
  \<^verbatim>\<open>createHmac\<close>. The whole body is inside one \<^verbatim>\<open>try\<close>.
\<close>

definition verifyAndCapturePayment ::
    "hmac_fn \<Rightarrow> string \<Rightarrow> gateway \<Rightarrow> req_body \<Rightarrow> response \<times> gateway_call list" where
  "verifyAndCapturePayment hmac key_secret razorpay b =
     (let razorpay_order_id = b ''razorpay_order_id'';
          razorpay_payment_id = b ''razorpay_payment_id'';
          razorpay_signature = b ''razorpay_signature'';
          amount = b ''amount''
      in
      if js_not razorpay_order_id \<or> js_not razorpay_payment_id \<or> js_not razorpay_signature
           \<or> js_not amount
      then (\<lparr>status_code = 400,
             body = JsonObj [(''success'', JsonBool False),
                             (''error'', JsonStr ''Missing required parameters'')]\<rparr>, [])
      else
        case sign_payload razorpay_order_id razorpay_payment_id of
          Inl e \<Rightarrow> (payment_processing_error e, [])
        | Inr sign \<Rightarrow>
            if razorpay_signature \<noteq> JStr (expectedSign hmac (trim key_secret) sign) then
              (\<lparr>status_code = 400,
                body = JsonObj [(''success'', JsonBool False),
                                (''error'', JsonStr ''Invalid signature'')]\<rparr>, [])
            else
              case payments_fetch razorpay razorpay_payment_id of
                Inl e \<Rightarrow> (payment_processing_error e, [PaymentsFetch razorpay_payment_id])
              | Inr payment \<Rightarrow>
                  if status payment = ''captured'' then
                    (\<lparr>status_code = 200,
                      body = JsonObj [(''success'', JsonBool True),
                                      (''message'', JsonStr ''Payment already captured''),
                                      (''payment'', JsonPayment payment)]\<rparr>,
                     [PaymentsFetch razorpay_payment_id])
                  else if status payment \<noteq> ''authorized'' then
                    (\<lparr>status_code = 400,
                      body = JsonObj [(''success'', JsonBool False),
                                      (''error'', JsonStr (''Payment in invalid state: ''
                                                             @ status payment))]\<rparr>,
                     [PaymentsFetch razorpay_payment_id])
                  else
                    case payments_capture razorpay razorpay_payment_id amount
                           (Some (currency payment)) of
                      Inl e \<Rightarrow>
                        (payment_processing_error e,
                         [PaymentsFetch razorpay_payment_id,
                          PaymentsCapture razorpay_payment_id amount (Some (currency payment))])
                    | Inr capturedPayment \<Rightarrow>
                        (\<lparr>status_code = 200,
                          body = JsonObj [(''success'', JsonBool True),
                                          (''message'', JsonStr ''Payment captured successfully''),
                                          (''payment'', JsonPayment capturedPayment)]\<rparr>,
                         [PaymentsFetch razorpay_payment_id,
                          PaymentsCapture razorpay_payment_id amount (Some (currency payment))]))"

subsection \<open>\<^verbatim>\<open>getAllPayments\<close>\<close>

text \<open>The listing without a timer: the handler awaits the gateway's promise itself, and
  every failure is answered with 500.\<close>

definition getAllPayments :: "gateway \<Rightarrow> int \<Rightarrow> response \<times> gateway_call list" where
  "getAllPayments razorpay now =
     (case listing_options now of
        (opt_from, opt_to, opt_count, opt_skip) \<Rightarrow>
          (let calls = [PaymentsAll opt_from opt_to opt_count opt_skip];
               failed = (\<lambda>e. \<lparr>status_code = 500,
                               body = JsonObj [(''success'', JsonBool False),
                                               (''error'', JsonStr (or_else (message e)
                                                                      ''Failed to fetch payments''))]\<rparr>)
           in case payments_all razorpay opt_from opt_to opt_count opt_skip of
                Inl e \<Rightarrow> (failed e, calls)
              | Inr None \<Rightarrow> (failed (Error ''No response from Razorpay''), calls)
              | Inr (Some payments) \<Rightarrow> (payments_ok payments, calls)))"

section \<open>Scenario data\<close>

text \<open>
  The inputs the properties below are exercised on: the request of the specification's
  concrete scenario, a stubbed gateway, and HMAC-SHA256 at the key and message pairs
  the scenarios use (the digests Node's \<^verbatim>\<open>crypto\<close> returns for them; every other pair
  gets the empty digest here, which no scenario reads).
\<close>

definition scenario_hmac :: hmac_fn where
  "scenario_hmac key msg =
     (if key = ''testsecret'' \<and> msg = ''order_ABC|pay_XYZ'' then
        [0x93, 0xf5, 0xa7, 0x85, 0x99, 0x2a, 0x41, 0xd6, 0x8e, 0x10, 0xe2, 0xe0, 0x8c, 0x1c, 0x7c, 0xa5,
         0x69, 0x2e, 0x58, 0xe2, 0x4b, 0xde, 0xdb, 0xc5, 0xf0, 0x61, 0x6c, 0x97, 0xfc, 0x44, 0x38, 0xaa]
      else if key = ''testsecret '' \<and> msg = ''order_ABC|pay_XYZ'' then
        [0x81, 0x1c, 0xdc, 0x58, 0x8b, 0xff, 0x98, 0x9a, 0x85, 0x4a, 0xd4, 0xa8, 0xad, 0x6b, 0x44, 0x6e,
         0x72, 0x23, 0x96, 0x25, 0x43, 0x28, 0xc6, 0x3d, 0xc9, 0xa9, 0x0a, 0xae, 0xfb, 0x68, 0x44, 0xd6]
      else [])"

text \<open>The body \<^verbatim>\<open>{razorpay_order_id: "order_ABC", razorpay_payment_id: "pay_XYZ",
  razorpay_signature, amount}\<close>.\<close>

definition scenario_body :: "jsval \<Rightarrow> jsval \<Rightarrow> req_body" where
  "scenario_body razorpay_signature amount =
     body_of [(''razorpay_order_id'', JStr ''order_ABC''),
              (''razorpay_payment_id'', JStr ''pay_XYZ''),
              (''razorpay_signature'', razorpay_signature),
              (''amount'', amount)]"

text \<open>The signature of the scenario under the key \<^verbatim>\<open>testsecret\<close>, and the one under the
  same key followed by a space.\<close>

definition scenario_signature :: string where
  "scenario_signature = ''93f5a785992a41d68e10e2e08c1c7ca5692e58e24bdedbc5f0616c97fc4438aa''"

definition padded_key_signature :: string where
  "padded_key_signature = ''811cdc588bff989a854ad4a8ad6b446e722396254328c63dc9a90aaefb6844d6''"

text \<open>A payment in state \<open>st\<close>, and a gateway whose every payment is in that state and
  whose calls all succeed.\<close>

definition stub_payment :: "string \<Rightarrow> jsval \<Rightarrow> payment" where
  "stub_payment st pid = \<lparr>status = st, currency = ''INR'', attrs = [(''id'', pid)]\<rparr>"

definition stub_gateway :: "string \<Rightarrow> gateway" where
  "stub_gateway st =
     \<lparr>orders_create = (\<lambda>amt cur receipt. Inr [(''amount'', amt), (''currency'', cur)]),
      payments_fetch = (\<lambda>pid. Inr (stub_payment st pid)),
      payments_capture = (\<lambda>pid amt cur. Inr (stub_payment ''captured'' pid)),
      payments_all = (\<lambda>f t c s. Inr (Some \<lparr>count = JNum 1,
                                             items = Some [stub_payment st (JStr ''pay_XYZ'')]\<rparr>))\<rparr>"

text \<open>A gateway whose every call is rejected with \<open>e\<close>.\<close>

definition failing_gateway :: "thrown \<Rightarrow> gateway" where
  "failing_gateway e =
     \<lparr>orders_create = (\<lambda>amt cur receipt. Inl e),
      payments_fetch = (\<lambda>pid. Inl e),
      payments_capture = (\<lambda>pid amt cur. Inl e),
      payments_all = (\<lambda>f t c s. Inl e)\<rparr>"

text \<open>What the SDK rejects with when the gateway refuses the credentials.\<close>

definition unauthorized_error :: thrown where
  "unauthorized_error =
     \<lparr>message = None, code = None, description = None, statusCode = Some 401,
      error = Some (Some ''Authentication failed'')\<rparr>"

section \<open>Predicates of the properties\<close>

text \<open>All four required fields are truthy: the request passes the validation of both
  handlers.\<close>

definition required_present :: "req_body \<Rightarrow> bool" where
  "required_present b =
     (\<not> js_not (b ''razorpay_order_id'') \<and> \<not> js_not (b ''razorpay_payment_id'')
      \<and> \<not> js_not (b ''razorpay_signature'') \<and> \<not> js_not (b ''amount''))"

text \<open>
  \<^verbatim>\<open>razorpay_signature === expectedSign\<close> under the key \<open>key\<close>: the submitted signature is
  a string and equals the hex digest of the payload. It is false when no payload can
  be built.
\<close>

definition signature_matches :: "hmac_fn \<Rightarrow> string \<Rightarrow> req_body \<Rightarrow> bool" where
  "signature_matches hmac key b =
     (case sign_payload (b ''razorpay_order_id'') (b ''razorpay_payment_id'') of
        Inl e \<Rightarrow> False
      | Inr sign \<Rightarrow> b ''razorpay_signature'' = JStr (expectedSign hmac key sign))"

section \<open>The hex encoding\<close>

lemma hex_digit_lower: "d < 16 \<Longrightarrow> hex_digit d \<in> set ''0123456789abcdef''"
  unfolding hex_digit_def by (rule nth_mem) simp

lemma high_nibble: "unat (drop_bit 4 (w :: 8 word)) < 16"
proof -
  have bound: "unat w < 256" using unsigned_less [of w] by simp
  have "unat (drop_bit 4 w) = unat w div 16"
    by (simp add: drop_bit_eq_div unat_div)
  with bound show ?thesis by simp
qed

lemma low_nibble: "unat ((w :: 8 word) AND 0x0F) < 16"
proof -
  have "w AND 0x0F = take_bit 4 w"
    by (simp add: take_bit_eq_mask mask_eq_exp_minus_1)
  moreover have "unat (take_bit 4 w) = unat w mod 16"
    by (simp add: take_bit_eq_mod unat_mod)
  ultimately show ?thesis by simp
qed

lemma hex_byte_lower: "set (hex_byte w) \<subseteq> set ''0123456789abcdef''"
  unfolding hex_byte_def using hex_digit_lower [OF high_nibble [of w]] hex_digit_lower [OF low_nibble [of w]]
  by simp

lemma digest_hex_lower: "set (digest_hex bs) \<subseteq> set ''0123456789abcdef''"
proof -
  have "\<And>w. w \<in> set bs \<Longrightarrow> set (hex_byte w) \<subseteq> set ''0123456789abcdef''"
    by (rule hex_byte_lower)
  then show ?thesis
    unfolding digest_hex_def set_concat set_map by blast
qed

lemma digest_hex_length: "length (digest_hex bs) = 2 * length bs"
  unfolding digest_hex_def by (induction bs) (simp_all add: hex_byte_def)

section \<open>The scenario data evaluated\<close>

lemma scenario_digest: "expectedSign scenario_hmac ''testsecret'' ''order_ABC|pay_XYZ'' = scenario_signature"
  by (simp add: expectedSign_def scenario_hmac_def digest_hex_def hex_byte_def hex_digit_def scenario_signature_def)

lemma padded_digest: "expectedSign scenario_hmac ''testsecret '' ''order_ABC|pay_XYZ'' = padded_key_signature"
  by (simp add: expectedSign_def scenario_hmac_def digest_hex_def hex_byte_def hex_digit_def padded_key_signature_def)

lemma scenario_body_simps:
  "scenario_body s a ''razorpay_order_id'' = JStr ''order_ABC''"
  "scenario_body s a ''razorpay_payment_id'' = JStr ''pay_XYZ''"
  "scenario_body s a ''razorpay_signature'' = s"
  "scenario_body s a ''amount'' = a"
  by (simp_all add: scenario_body_def body_of_def)


section \<open>The branches of the two verification handlers\<close>

lemma server_verify_absent:
  "\<not> required_present b \<Longrightarrow>
   server_verify_payment hmac key_secret razorpay b =
     (\<lparr>status_code = 400,
       body = JsonObj [(''verified'', JsonBool False),
                       (''error'', JsonStr ''Missing required parameters'')]\<rparr>, [])"
  by (auto simp add: server_verify_payment_def required_present_def)

lemma controller_verify_absent:
  "\<not> required_present b \<Longrightarrow>
   verifyAndCapturePayment hmac key_secret razorpay b =
     (\<lparr>status_code = 400,
       body = JsonObj [(''success'', JsonBool False),
                       (''error'', JsonStr ''Missing required parameters'')]\<rparr>, [])"
  by (auto simp add: verifyAndCapturePayment_def required_present_def)

lemma server_verify_mismatch:
  "required_present b \<Longrightarrow>
   sign_payload (b ''razorpay_order_id'') (b ''razorpay_payment_id'') = Inr sign \<Longrightarrow>
   b ''razorpay_signature'' \<noteq> JStr (expectedSign hmac key_secret sign) \<Longrightarrow>
   server_verify_payment hmac key_secret razorpay b =
     (\<lparr>status_code = 400,
       body = JsonObj [(''verified'', JsonBool False),
                       (''error'', JsonStr ''Invalid signature'')]\<rparr>, [])"
  by (simp add: server_verify_payment_def required_present_def)

lemma server_verify_throws:
  "required_present b \<Longrightarrow>
   sign_payload (b ''razorpay_order_id'') (b ''razorpay_payment_id'') = Inl e \<Longrightarrow>
   server_verify_payment hmac key_secret razorpay b =
     (\<lparr>status_code = 500,
       body = JsonObj [(''verified'', JsonBool False),
                       (''error'', JsonStr ''Internal server error'')]\<rparr>, [])"
  by (simp add: server_verify_payment_def required_present_def)

text \<open>The capture orchestration of \<^verbatim>\<open>server.js\<close>, entered with a matching signature.\<close>

lemma server_verify_match:
  "required_present b \<Longrightarrow> signature_matches hmac key_secret b \<Longrightarrow>
   server_verify_payment hmac key_secret razorpay b =
     (case payments_fetch razorpay (b ''razorpay_payment_id'') of
        Inl captureError \<Rightarrow>
          (capture_failed captureError, [PaymentsFetch (b ''razorpay_payment_id'')])
      | Inr paymentDetails \<Rightarrow>
          if status paymentDetails = ''authorized'' then
            (case payments_capture razorpay (b ''razorpay_payment_id'') (b ''amount'') None of
               Inl captureError \<Rightarrow>
                 (capture_failed captureError,
                  [PaymentsFetch (b ''razorpay_payment_id''),
                   PaymentsCapture (b ''razorpay_payment_id'') (b ''amount'') None])
             | Inr payment \<Rightarrow>
                 (\<lparr>status_code = 200,
                   body = JsonObj [(''verified'', JsonBool True),
                                   (''captured'', JsonBool True),
                                   (''payment_id'', JsonVal (b ''razorpay_payment_id'')),
                                   (''order_id'', JsonVal (b ''razorpay_order_id'')),
                                   (''payment_details'', JsonPayment payment)]\<rparr>,
                  [PaymentsFetch (b ''razorpay_payment_id''),
                   PaymentsCapture (b ''razorpay_payment_id'') (b ''amount'') None]))
          else if status paymentDetails = ''captured'' then
            (\<lparr>status_code = 200,
              body = JsonObj [(''verified'', JsonBool True),
                              (''captured'', JsonBool True),
                              (''payment_id'', JsonVal (b ''razorpay_payment_id'')),
                              (''order_id'', JsonVal (b ''razorpay_order_id'')),
                              (''payment_details'', JsonPayment paymentDetails)]\<rparr>,
             [PaymentsFetch (b ''razorpay_payment_id'')])
          else
            (capture_failed (Error (''Payment in unexpected state: '' @ status paymentDetails)),
             [PaymentsFetch (b ''razorpay_payment_id'')]))"
  by (simp add: server_verify_payment_def required_present_def signature_matches_def Let_def
           split: sum.splits)

lemma controller_verify_mismatch:
  "required_present b \<Longrightarrow>
   sign_payload (b ''razorpay_order_id'') (b ''razorpay_payment_id'') = Inr sign \<Longrightarrow>
   b ''razorpay_signature'' \<noteq> JStr (expectedSign hmac (trim key_secret) sign) \<Longrightarrow>
   verifyAndCapturePayment hmac key_secret razorpay b =
     (\<lparr>status_code = 400,
       body = JsonObj [(''success'', JsonBool False),
                       (''error'', JsonStr ''Invalid signature'')]\<rparr>, [])"
  by (simp add: verifyAndCapturePayment_def required_present_def)

lemma controller_verify_throws:
  "required_present b \<Longrightarrow>
   sign_payload (b ''razorpay_order_id'') (b ''razorpay_payment_id'') = Inl e \<Longrightarrow>
   verifyAndCapturePayment hmac key_secret razorpay b = (payment_processing_error e, [])"
  by (simp add: verifyAndCapturePayment_def required_present_def)

lemma controller_verify_match:
  "required_present b \<Longrightarrow> signature_matches hmac (trim key_secret) b \<Longrightarrow>
   verifyAndCapturePayment hmac key_secret razorpay b =
     (case payments_fetch razorpay (b ''razorpay_payment_id'') of
        Inl e \<Rightarrow> (payment_processing_error e, [PaymentsFetch (b ''razorpay_payment_id'')])
      | Inr payment \<Rightarrow>
          if status payment = ''captured'' then
            (\<lparr>status_code = 200,
              body = JsonObj [(''success'', JsonBool True),
                              (''message'', JsonStr ''Payment already captured''),
                              (''payment'', JsonPayment payment)]\<rparr>,
             [PaymentsFetch (b ''razorpay_payment_id'')])
          else if status payment \<noteq> ''authorized'' then
            (\<lparr>status_code = 400,
              body = JsonObj [(''success'', JsonBool False),
                              (''error'', JsonStr (''Payment in invalid state: ''
                                                     @ status payment))]\<rparr>,
             [PaymentsFetch (b ''razorpay_payment_id'')])
          else
            case payments_capture razorpay (b ''razorpay_payment_id'') (b ''amount'')
                   (Some (currency payment)) of
              Inl e \<Rightarrow>
                (payment_processing_error e,
                 [PaymentsFetch (b ''razorpay_payment_id''),
                  PaymentsCapture (b ''razorpay_payment_id'') (b ''amount'')
                    (Some (currency payment))])
            | Inr capturedPayment \<Rightarrow>
                (\<lparr>status_code = 200,
                  body = JsonObj [(''success'', JsonBool True),
                                  (''message'', JsonStr ''Payment captured successfully''),
                                  (''payment'', JsonPayment capturedPayment)]\<rparr>,
                 [PaymentsFetch (b ''razorpay_payment_id''),
                  PaymentsCapture (b ''razorpay_payment_id'') (b ''amount'')
                    (Some (currency payment))]))"
  by (simp add: verifyAndCapturePayment_def required_present_def signature_matches_def Let_def
           split: sum.splits)

lemma scenario_present: "\<not> js_not s \<Longrightarrow> \<not> js_not a \<Longrightarrow> required_present (scenario_body s a)"
  by (simp add: required_present_def scenario_body_simps)

lemma scenario_payload:
  "sign_payload (scenario_body s a ''razorpay_order_id'') (scenario_body s a ''razorpay_payment_id'')
     = Inr ''order_ABC|pay_XYZ''"
  by (simp add: sign_payload_def scenario_body_simps)

lemma scenario_matches:
  "signature_matches scenario_hmac ''testsecret'' (scenario_body s a) = (s = JStr scenario_signature)"
  by (simp add: signature_matches_def sign_payload_def scenario_digest scenario_body_simps)


lemma scenario_digest': "digest_hex (scenario_hmac ''testsecret'' ''order_ABC|pay_XYZ'') = scenario_signature"
  using scenario_digest by (simp add: expectedSign_def)

lemma signatures_differ: "scenario_signature \<noteq> padded_key_signature"
  by (simp add: scenario_signature_def padded_key_signature_def)

lemma stub_gateway_simps:
  "payments_fetch (stub_gateway st) pid = Inr (stub_payment st pid)"
  "payments_capture (stub_gateway st) pid amt cur = Inr (stub_payment ''captured'' pid)"
  "orders_create (stub_gateway st) amt cur' receipt = Inr [(''amount'', amt), (''currency'', cur')]"
  "payments_all (stub_gateway st) f t n k
     = Inr (Some \<lparr>count = JNum 1, items = Some [stub_payment st (JStr ''pay_XYZ'')]\<rparr>)"
  by (simp_all add: stub_gateway_def)

lemma failing_gateway_simps:
  "payments_fetch (failing_gateway e) pid = Inl e"
  "payments_capture (failing_gateway e) pid amt cur = Inl e"
  "orders_create (failing_gateway e) amt cur' receipt = Inl e"
  "payments_all (failing_gateway e) f t n k = Inl e"
  by (simp_all add: failing_gateway_def)

lemma stub_payment_simps:
  "status (stub_payment st pid) = st"
  "currency (stub_payment st pid) = ''INR''"
  by (simp_all add: stub_payment_def)

lemma trim_testsecret:
  "trim ''testsecret'' = ''testsecret''"
  "trim ''testsecret '' = ''testsecret''"
  by (simp_all add: trim_def is_white_space_def)

text \<open>The no-break space is trimmed too, and keys that are blank do not start the server.\<close>

lemma trim_no_break_space: "trim [CHR 0xA0, CHR ''k'', CHR ''e'', CHR ''y'', CHR 0xA0] = ''key''"
  by (simp add: trim_def is_white_space_def)

lemma blank_key_exits:
  "init_razorpay (Some ''  '') (Some ''testsecret'') = None"
  "init_razorpay (Some ''rzp_test_key'') (Some '' '') = None"
  "init_razorpay (Some ''rzp_test_key'') None = None"
  by (simp_all add: init_razorpay_def trim_def is_white_space_def)

lemma good_present:
  "\<not> js_not a \<Longrightarrow> required_present (scenario_body (JStr scenario_signature) a)"
  by (rule scenario_present) (simp_all add: scenario_signature_def)

lemma bad_present: "required_present (scenario_body (JStr padded_key_signature) (JNum 50000))"
  by (rule scenario_present) (simp_all add: padded_key_signature_def)

text \<open>The scenario request, correctly signed, against a gateway whose payment is in
  state \<open>st\<close>.\<close>

lemma server_scenario:
  "\<not> js_not a \<Longrightarrow>
   server_verify_payment scenario_hmac ''testsecret'' (stub_gateway st)
     (scenario_body (JStr scenario_signature) a) =
   (if st = ''authorized'' then
      (\<lparr>status_code = 200,
        body = JsonObj [(''verified'', JsonBool True),
                        (''captured'', JsonBool True),
                        (''payment_id'', JsonVal (JStr ''pay_XYZ'')),
                        (''order_id'', JsonVal (JStr ''order_ABC'')),
                        (''payment_details'', JsonPayment (stub_payment ''captured'' (JStr ''pay_XYZ'')))]\<rparr>,
       [PaymentsFetch (JStr ''pay_XYZ''), PaymentsCapture (JStr ''pay_XYZ'') a None])
    else if st = ''captured'' then
      (\<lparr>status_code = 200,
        body = JsonObj [(''verified'', JsonBool True),
                        (''captured'', JsonBool True),
                        (''payment_id'', JsonVal (JStr ''pay_XYZ'')),
                        (''order_id'', JsonVal (JStr ''order_ABC'')),
                        (''payment_details'', JsonPayment (stub_payment ''captured'' (JStr ''pay_XYZ'')))]\<rparr>,
       [PaymentsFetch (JStr ''pay_XYZ'')])
    else
      (\<lparr>status_code = 500,
        body = JsonObj [(''verified'', JsonBool True),
                        (''captured'', JsonBool False),
                        (''error'', JsonStr (''Payment in unexpected state: '' @ st))]\<rparr>,
       [PaymentsFetch (JStr ''pay_XYZ'')]))"
  by (simp add: server_verify_match [OF good_present] scenario_matches scenario_body_simps
        stub_gateway_simps stub_payment_simps capture_failed_def Error_def)

lemma controller_scenario:
  "\<not> js_not a \<Longrightarrow>
   verifyAndCapturePayment scenario_hmac ''testsecret'' (stub_gateway st)
     (scenario_body (JStr scenario_signature) a) =
   (if st = ''captured'' then
      (\<lparr>status_code = 200,
        body = JsonObj [(''success'', JsonBool True),
                        (''message'', JsonStr ''Payment already captured''),
                        (''payment'', JsonPayment (stub_payment ''captured'' (JStr ''pay_XYZ'')))]\<rparr>,
       [PaymentsFetch (JStr ''pay_XYZ'')])
    else if st \<noteq> ''authorized'' then
      (\<lparr>status_code = 400,
        body = JsonObj [(''success'', JsonBool False),
                        (''error'', JsonStr (''Payment in invalid state: '' @ st))]\<rparr>,
       [PaymentsFetch (JStr ''pay_XYZ'')])
    else
      (\<lparr>status_code = 200,
        body = JsonObj [(''success'', JsonBool True),
                        (''message'', JsonStr ''Payment captured successfully''),
                        (''payment'', JsonPayment (stub_payment ''captured'' (JStr ''pay_XYZ'')))]\<rparr>,
       [PaymentsFetch (JStr ''pay_XYZ''),
        PaymentsCapture (JStr ''pay_XYZ'') a (Some ''INR'')]))"
  by (simp add: controller_verify_match [OF good_present] trim_testsecret scenario_matches
        scenario_body_simps stub_gateway_simps stub_payment_simps)

lemma falsy_field_absent:
  assumes "k \<in> {''razorpay_order_id'', ''razorpay_payment_id'', ''razorpay_signature'', ''amount''}"
    and "js_not (b k)"
  shows "\<not> required_present b"
  using assms by (auto simp add: required_present_def)

lemma server_capture_amount:
  assumes "PaymentsCapture p a c \<in> set (snd (server_verify_payment hmac key_secret razorpay b))"
  shows "a = b ''amount'' \<and> \<not> js_not a \<and> p = b ''razorpay_payment_id''"
proof -
  from assms server_verify_absent [of b hmac key_secret razorpay]
  have pr: "required_present b" by fastforce
  have m: "signature_matches hmac key_secret b"
  proof (rule ccontr)
    assume n: "\<not> signature_matches hmac key_secret b"
    show False
    proof (cases "sign_payload (b ''razorpay_order_id'') (b ''razorpay_payment_id'')")
      case (Inl e)
      with pr assms show False by (simp add: server_verify_throws)
    next
      case (Inr sign)
      with n have "b ''razorpay_signature'' \<noteq> JStr (expectedSign hmac key_secret sign)"
        by (simp add: signature_matches_def)
      with pr Inr assms show False by (simp add: server_verify_mismatch)
    qed
  qed
  from assms pr show ?thesis
    unfolding server_verify_match [OF pr m]
    by (auto simp add: required_present_def split: sum.splits if_splits)
qed

lemma controller_capture_amount:
  assumes "PaymentsCapture p a c \<in> set (snd (verifyAndCapturePayment hmac key_secret razorpay b))"
  shows "a = b ''amount'' \<and> \<not> js_not a \<and> p = b ''razorpay_payment_id''"
proof -
  from assms controller_verify_absent [of b hmac key_secret razorpay]
  have pr: "required_present b" by fastforce
  have m: "signature_matches hmac (trim key_secret) b"
  proof (rule ccontr)
    assume n: "\<not> signature_matches hmac (trim key_secret) b"
    show False
    proof (cases "sign_payload (b ''razorpay_order_id'') (b ''razorpay_payment_id'')")
      case (Inl e)
      with pr assms show False by (simp add: controller_verify_throws)
    next
      case (Inr sign)
      with n have "b ''razorpay_signature'' \<noteq> JStr (expectedSign hmac (trim key_secret) sign)"
        by (simp add: signature_matches_def)
      with pr Inr assms show False by (simp add: controller_verify_mismatch)
    qed
  qed
  from assms pr show ?thesis
    unfolding controller_verify_match [OF pr m]
    by (auto simp add: required_present_def split: sum.splits if_splits)
qed

section \<open>Signature verification\<close>

text \<open>
  Claim C1. For a request that passes validation and whose identifiers are the strings
  \<open>orderId\<close> and \<open>paymentId\<close>, the expected signature is the lowercase hex digest of
  the HMAC of \<open>orderId | paymentId\<close>, and the submitted signature is accepted exactly
  when it is that string: \<^verbatim>\<open>server.js\<close> (key: the secret as configured) answers with
  \<open>verified: true\<close> if it is and with 400 "Invalid signature" and no gateway call if it
  is not; the controller (key: the trimmed secret) goes on to fetch the payment if it is
  and answers 400 "Invalid signature" with no gateway call if it is not.
\<close>

theorem signature_accepted_iff_exact_digest:
  assumes "b ''razorpay_order_id'' = JStr orderId" and "b ''razorpay_payment_id'' = JStr paymentId"
    and "required_present b"
  shows "let expected = digest_hex (hmac key_secret (orderId @ ''|'' @ paymentId));
             trimmed = digest_hex (hmac (trim key_secret) (orderId @ ''|'' @ paymentId))
         in set expected \<subseteq> set ''0123456789abcdef''
          \<and> (field ''verified'' (body (fst (server_verify_payment hmac key_secret razorpay b)))
               = Some (JsonBool True))
            = (b ''razorpay_signature'' = JStr expected)
          \<and> (server_verify_payment hmac key_secret razorpay b
               = (\<lparr>status_code = 400,
                    body = JsonObj [(''verified'', JsonBool False),
                                    (''error'', JsonStr ''Invalid signature'')]\<rparr>, []))
            = (b ''razorpay_signature'' \<noteq> JStr expected)
          \<and> (PaymentsFetch (JStr paymentId) \<in> set (snd (verifyAndCapturePayment hmac key_secret razorpay b)))
            = (b ''razorpay_signature'' = JStr trimmed)
          \<and> (verifyAndCapturePayment hmac key_secret razorpay b
               = (\<lparr>status_code = 400,
                    body = JsonObj [(''success'', JsonBool False),
                                    (''error'', JsonStr ''Invalid signature'')]\<rparr>, []))
            = (b ''razorpay_signature'' \<noteq> JStr trimmed)"
proof -
  have payload: "sign_payload (b ''razorpay_order_id'') (b ''razorpay_payment_id'')
                   = Inr (orderId @ ''|'' @ paymentId)"
    using assms(1,2) by (simp add: sign_payload_def)
  have m: "signature_matches hmac k b
             = (b ''razorpay_signature'' = JStr (digest_hex (hmac k (orderId @ ''|'' @ paymentId))))" for k
    by (simp add: signature_matches_def payload expectedSign_def)
  have s1: "b ''razorpay_signature'' = JStr (digest_hex (hmac key_secret (orderId @ ''|'' @ paymentId)))
        \<Longrightarrow> field ''verified'' (body (fst (server_verify_payment hmac key_secret razorpay b))) = Some (JsonBool True)
          \<and> server_verify_payment hmac key_secret razorpay b \<noteq> (\<lparr>status_code = 400,
                    body = JsonObj [(''verified'', JsonBool False),
                                    (''error'', JsonStr ''Invalid signature'')]\<rparr>, [])"
    using server_verify_match [OF assms(3), of hmac key_secret razorpay]
    by (simp add: m capture_failed_def split: sum.splits)
  have s2: "b ''razorpay_signature'' \<noteq> JStr (digest_hex (hmac key_secret (orderId @ ''|'' @ paymentId)))
        \<Longrightarrow> server_verify_payment hmac key_secret razorpay b = (\<lparr>status_code = 400,
                    body = JsonObj [(''verified'', JsonBool False),
                                    (''error'', JsonStr ''Invalid signature'')]\<rparr>, [])"
    using server_verify_mismatch [OF assms(3) payload, of hmac key_secret razorpay]
    by (simp add: expectedSign_def)
  have c1: "b ''razorpay_signature'' = JStr (digest_hex (hmac (trim key_secret) (orderId @ ''|'' @ paymentId)))
        \<Longrightarrow> PaymentsFetch (JStr paymentId) \<in> set (snd (verifyAndCapturePayment hmac key_secret razorpay b))"
    using controller_verify_match [OF assms(3), of hmac key_secret razorpay] assms(2)
    by (simp add: m split: sum.splits)
  have c2: "b ''razorpay_signature'' \<noteq> JStr (digest_hex (hmac (trim key_secret) (orderId @ ''|'' @ paymentId)))
        \<Longrightarrow> verifyAndCapturePayment hmac key_secret razorpay b = (\<lparr>status_code = 400,
                    body = JsonObj [(''success'', JsonBool False),
                                    (''error'', JsonStr ''Invalid signature'')]\<rparr>, [])"
    using controller_verify_mismatch [OF assms(3) payload, of hmac key_secret razorpay]
    by (simp add: expectedSign_def)
  show ?thesis
    unfolding Let_def
    using s1 s2 c1 c2 digest_hex_lower [of "hmac key_secret (orderId @ ''|'' @ paymentId)"]
    by (cases "b ''razorpay_signature'' = JStr (digest_hex (hmac key_secret (orderId @ ''|'' @ paymentId)))";
        cases "b ''razorpay_signature'' = JStr (digest_hex (hmac (trim key_secret) (orderId @ ''|'' @ paymentId)))")
       fastforce+
qed


theorem signature_accepted_iff_exact_digest_witness:
  "digest_hex (scenario_hmac ''testsecret'' ''order_ABC|pay_XYZ'') = scenario_signature
   \<and> field ''verified'' (body (fst (server_verify_payment scenario_hmac ''testsecret''
        (stub_gateway ''authorized'') (scenario_body (JStr scenario_signature) (JNum 50000)))))
      = Some (JsonBool True)
   \<and> server_verify_payment scenario_hmac ''testsecret'' (stub_gateway ''authorized'')
        (scenario_body (JStr padded_key_signature) (JNum 50000))
      = (\<lparr>status_code = 400,
           body = JsonObj [(''verified'', JsonBool False),
                           (''error'', JsonStr ''Invalid signature'')]\<rparr>, [])
   \<and> PaymentsFetch (JStr ''pay_XYZ'')
        \<in> set (snd (verifyAndCapturePayment scenario_hmac ''testsecret''
                   (stub_gateway ''authorized'') (scenario_body (JStr scenario_signature) (JNum 50000))))"
proof -
  have good: "required_present (scenario_body (JStr scenario_signature) (JNum 50000))"
    by (rule scenario_present) (simp_all add: scenario_signature_def)
  have bad: "required_present (scenario_body (JStr padded_key_signature) (JNum 50000))"
    by (rule scenario_present) (simp_all add: padded_key_signature_def)
  have tr: "trim ''testsecret'' = ''testsecret''"
    by (simp add: trim_def is_white_space_def)
  note accepted = signature_accepted_iff_exact_digest
    [where b = "scenario_body (JStr scenario_signature) (JNum 50000)"
       and orderId = "''order_ABC''" and paymentId = "''pay_XYZ''" and hmac = scenario_hmac
       and key_secret = "''testsecret''" and razorpay = "stub_gateway ''authorized''",
     OF _ _ good]
  note rejected = signature_accepted_iff_exact_digest
    [where b = "scenario_body (JStr padded_key_signature) (JNum 50000)"
       and orderId = "''order_ABC''" and paymentId = "''pay_XYZ''" and hmac = scenario_hmac
       and key_secret = "''testsecret''" and razorpay = "stub_gateway ''authorized''",
     OF _ _ bad]
  show ?thesis
    using accepted rejected signatures_differ
    by (simp add: Let_def scenario_body_simps scenario_digest' tr)
qed

section \<open>Capture only after verification\<close>

text \<open>
  Claim C2. A request whose signature does not equal the expected digest (under the key
  the handler uses) causes no gateway call at all, in either handler; and whenever a
  capture call is issued, the signature matched and the capture is the second call,
  after the fetch of the same payment.
\<close>

theorem capture_only_after_signature_verified:
  "(\<not> signature_matches hmac key_secret b \<longrightarrow>
      snd (server_verify_payment hmac key_secret razorpay b) = [])
   \<and> (\<not> signature_matches hmac (trim key_secret) b \<longrightarrow>
      snd (verifyAndCapturePayment hmac key_secret razorpay b) = [])
   \<and> (PaymentsCapture p a c \<in> set (snd (server_verify_payment hmac key_secret razorpay b)) \<longrightarrow>
      signature_matches hmac key_secret b
      \<and> snd (server_verify_payment hmac key_secret razorpay b)
          = [PaymentsFetch p, PaymentsCapture p a c])
   \<and> (PaymentsCapture p a c \<in> set (snd (verifyAndCapturePayment hmac key_secret razorpay b)) \<longrightarrow>
      signature_matches hmac (trim key_secret) b
      \<and> snd (verifyAndCapturePayment hmac key_secret razorpay b)
          = [PaymentsFetch p, PaymentsCapture p a c])"
proof -
  have server_none: "snd (server_verify_payment hmac key_secret razorpay b) = []"
    if "\<not> signature_matches hmac key_secret b"
  proof (cases "required_present b")
    case False
    then show ?thesis by (simp add: server_verify_absent)
  next
    case True
    show ?thesis
    proof (cases "sign_payload (b ''razorpay_order_id'') (b ''razorpay_payment_id'')")
      case (Inl e)
      with True show ?thesis by (simp add: server_verify_throws)
    next
      case (Inr sign)
      with that have "b ''razorpay_signature'' \<noteq> JStr (expectedSign hmac key_secret sign)"
        by (simp add: signature_matches_def)
      with True Inr show ?thesis by (simp add: server_verify_mismatch)
    qed
  qed
  have controller_none: "snd (verifyAndCapturePayment hmac key_secret razorpay b) = []"
    if "\<not> signature_matches hmac (trim key_secret) b"
  proof (cases "required_present b")
    case False
    then show ?thesis by (simp add: controller_verify_absent)
  next
    case True
    show ?thesis
    proof (cases "sign_payload (b ''razorpay_order_id'') (b ''razorpay_payment_id'')")
      case (Inl e)
      with True show ?thesis by (simp add: controller_verify_throws)
    next
      case (Inr sign)
      with that have "b ''razorpay_signature'' \<noteq> JStr (expectedSign hmac (trim key_secret) sign)"
        by (simp add: signature_matches_def)
      with True Inr show ?thesis by (simp add: controller_verify_mismatch)
    qed
  qed
  have server_order: "snd (server_verify_payment hmac key_secret razorpay b)
                        = [PaymentsFetch p, PaymentsCapture p a c]"
    if "PaymentsCapture p a c \<in> set (snd (server_verify_payment hmac key_secret razorpay b))"
  proof -
    from that server_none have m: "signature_matches hmac key_secret b" by fastforce
    from that server_verify_absent [of b hmac key_secret razorpay]
    have pr: "required_present b" by fastforce
    from that show ?thesis
      unfolding server_verify_match [OF pr m]
      by (auto split: sum.splits if_splits)
  qed
  have controller_order: "snd (verifyAndCapturePayment hmac key_secret razorpay b)
                            = [PaymentsFetch p, PaymentsCapture p a c]"
    if "PaymentsCapture p a c \<in> set (snd (verifyAndCapturePayment hmac key_secret razorpay b))"
  proof -
    from that controller_none have m: "signature_matches hmac (trim key_secret) b" by fastforce
    from that controller_verify_absent [of b hmac key_secret razorpay]
    have pr: "required_present b" by fastforce
    from that show ?thesis
      unfolding controller_verify_match [OF pr m]
      by (auto split: sum.splits if_splits)
  qed
  from server_none controller_none server_order controller_order show ?thesis
    by fastforce
qed

theorem capture_only_after_signature_verified_witness:
  "\<not> signature_matches scenario_hmac ''testsecret''
        (scenario_body (JStr padded_key_signature) (JNum 50000))
   \<and> snd (server_verify_payment scenario_hmac ''testsecret'' (stub_gateway ''authorized'')
             (scenario_body (JStr padded_key_signature) (JNum 50000))) = []
   \<and> snd (verifyAndCapturePayment scenario_hmac ''testsecret'' (stub_gateway ''authorized'')
             (scenario_body (JStr padded_key_signature) (JNum 50000))) = []
   \<and> PaymentsCapture (JStr ''pay_XYZ'') (JNum 50000) None
        \<in> set (snd (server_verify_payment scenario_hmac ''testsecret'' (stub_gateway ''authorized'')
                   (scenario_body (JStr scenario_signature) (JNum 50000))))
   \<and> signature_matches scenario_hmac ''testsecret''
        (scenario_body (JStr scenario_signature) (JNum 50000))"
proof -
  have unsigned: "\<not> signature_matches scenario_hmac ''testsecret''
                      (scenario_body (JStr padded_key_signature) (JNum 50000))"
    using signatures_differ by (simp add: scenario_matches)
  have issued: "PaymentsCapture (JStr ''pay_XYZ'') (JNum 50000) None
        \<in> set (snd (server_verify_payment scenario_hmac ''testsecret'' (stub_gateway ''authorized'')
                   (scenario_body (JStr scenario_signature) (JNum 50000))))"
    by (simp add: server_scenario)
  from unsigned issued
    capture_only_after_signature_verified
      [where hmac = scenario_hmac and key_secret = "''testsecret''"
         and razorpay = "stub_gateway ''authorized''"
         and b = "scenario_body (JStr padded_key_signature) (JNum 50000)"]
    capture_only_after_signature_verified
      [where hmac = scenario_hmac and key_secret = "''testsecret''"
         and razorpay = "stub_gateway ''authorized''"
         and b = "scenario_body (JStr scenario_signature) (JNum 50000)"
         and p = "JStr ''pay_XYZ''" and a = "JNum 50000" and c = None]
  show ?thesis
    by (simp add: trim_testsecret)
qed

section \<open>Validation of the required fields\<close>

text \<open>
  Claim C6. When any one of the four required fields is missing (\<^verbatim>\<open>undefined\<close>) or the
  empty string, both handlers answer 400 "Missing required parameters" and issue no
  gateway call.
\<close>

theorem missing_field_rejected_without_gateway_call:
  assumes "k \<in> {''razorpay_order_id'', ''razorpay_payment_id'', ''razorpay_signature'', ''amount''}"
    and "b k = JUndefined \<or> b k = JStr ''''"
  shows "server_verify_payment hmac key_secret razorpay b
           = (\<lparr>status_code = 400,
                body = JsonObj [(''verified'', JsonBool False),
                                (''error'', JsonStr ''Missing required parameters'')]\<rparr>, [])
       \<and> verifyAndCapturePayment hmac key_secret razorpay b
           = (\<lparr>status_code = 400,
                body = JsonObj [(''success'', JsonBool False),
                                (''error'', JsonStr ''Missing required parameters'')]\<rparr>, [])"
proof -
  from assms(2) have "js_not (b k)" by auto
  with assms(1) have "\<not> required_present b" by (rule falsy_field_absent)
  then show ?thesis
    by (simp add: server_verify_absent controller_verify_absent)
qed

theorem missing_field_rejected_without_gateway_call_witness:
  "server_verify_payment scenario_hmac ''testsecret'' (stub_gateway ''authorized'')
     (scenario_body (JStr scenario_signature) JUndefined)
     = (\<lparr>status_code = 400,
          body = JsonObj [(''verified'', JsonBool False),
                          (''error'', JsonStr ''Missing required parameters'')]\<rparr>, [])
   \<and> verifyAndCapturePayment scenario_hmac ''testsecret'' (stub_gateway ''authorized'')
     (scenario_body (JStr '''') (JNum 50000))
     = (\<lparr>status_code = 400,
          body = JsonObj [(''success'', JsonBool False),
                          (''error'', JsonStr ''Missing required parameters'')]\<rparr>, [])"
  using missing_field_rejected_without_gateway_call
          [where k = "''amount''" and b = "scenario_body (JStr scenario_signature) JUndefined"
             and hmac = scenario_hmac and key_secret = "''testsecret''"
             and razorpay = "stub_gateway ''authorized''"]
        missing_field_rejected_without_gateway_call
          [where k = "''razorpay_signature''" and b = "scenario_body (JStr '''') (JNum 50000)"
             and hmac = scenario_hmac and key_secret = "''testsecret''"
             and razorpay = "stub_gateway ''authorized''"]
  by (simp add: scenario_body_simps)

text \<open>
  Claim C9, as stated, ends with: a zero-amount capture can never be requested. The
  test is falsiness, and the string \<^verbatim>\<open>"0"\<close> is truthy: with \<^verbatim>\<open>amount: "0"\<close> the
  correctly signed scenario request passes validation and the capture call is issued
  with that amount.
\<close>

theorem string_zero_amount_reaches_capture:
  "server_verify_payment scenario_hmac ''testsecret'' (stub_gateway ''authorized'')
     (scenario_body (JStr scenario_signature) (JStr ''0''))
   = (\<lparr>status_code = 200,
        body = JsonObj [(''verified'', JsonBool True),
                        (''captured'', JsonBool True),
                        (''payment_id'', JsonVal (JStr ''pay_XYZ'')),
                        (''order_id'', JsonVal (JStr ''order_ABC'')),
                        (''payment_details'',
                         JsonPayment (stub_payment ''captured'' (JStr ''pay_XYZ'')))]\<rparr>,
      [PaymentsFetch (JStr ''pay_XYZ''), PaymentsCapture (JStr ''pay_XYZ'') (JStr ''0'') None])"
  by (simp add: server_scenario)

text \<open>
  Claim C9, amended. Presence is tested by falsiness: a request whose \<open>amount\<close> is the
  number 0, or one of whose string fields is the empty string, gets the very response
  of the request without that field, 400 "Missing required parameters" with no gateway
  call; and no capture call of either handler, on any request \<open>b'\<close>, carries a falsy
  amount, the number 0 in particular.
\<close>

theorem zero_amount_rejected_as_missing:
  assumes "(k = ''amount'' \<and> b k = JNum 0)
         \<or> (k \<in> {''razorpay_order_id'', ''razorpay_payment_id'', ''razorpay_signature''}
             \<and> b k = JStr '''')"
  shows "server_verify_payment hmac key_secret razorpay b
           = server_verify_payment hmac key_secret razorpay (b(k := JUndefined))
       \<and> server_verify_payment hmac key_secret razorpay b
           = (\<lparr>status_code = 400,
                body = JsonObj [(''verified'', JsonBool False),
                                (''error'', JsonStr ''Missing required parameters'')]\<rparr>, [])
       \<and> verifyAndCapturePayment hmac key_secret razorpay b
           = verifyAndCapturePayment hmac key_secret razorpay (b(k := JUndefined))
       \<and> verifyAndCapturePayment hmac key_secret razorpay b
           = (\<lparr>status_code = 400,
                body = JsonObj [(''success'', JsonBool False),
                                (''error'', JsonStr ''Missing required parameters'')]\<rparr>, [])
       \<and> (PaymentsCapture p a c \<in> set (snd (server_verify_payment hmac key_secret razorpay b'))
            \<longrightarrow> \<not> js_not a \<and> a \<noteq> JNum 0)
       \<and> (PaymentsCapture p a c \<in> set (snd (verifyAndCapturePayment hmac key_secret razorpay b'))
            \<longrightarrow> \<not> js_not a \<and> a \<noteq> JNum 0)"
proof -
  from assms have k: "k \<in> {''razorpay_order_id'', ''razorpay_payment_id'', ''razorpay_signature'', ''amount''}"
    and falsy: "js_not (b k)"
    by auto
  from k falsy have here: "\<not> required_present b" by (rule falsy_field_absent)
  from k have there: "\<not> required_present (b(k := JUndefined))"
    by (rule falsy_field_absent) simp
  have "\<not> js_not a \<and> a \<noteq> JNum 0"
    if "PaymentsCapture p a c \<in> set (snd (server_verify_payment hmac key_secret razorpay b'))"
    using server_capture_amount [OF that] by auto
  moreover have "\<not> js_not a \<and> a \<noteq> JNum 0"
    if "PaymentsCapture p a c \<in> set (snd (verifyAndCapturePayment hmac key_secret razorpay b'))"
    using controller_capture_amount [OF that] by auto
  ultimately show ?thesis
    using here there by (simp add: server_verify_absent controller_verify_absent)
qed

theorem zero_amount_rejected_as_missing_witness:
  "server_verify_payment scenario_hmac ''testsecret'' (stub_gateway ''authorized'')
     (scenario_body (JStr scenario_signature) (JNum 0))
     = server_verify_payment scenario_hmac ''testsecret'' (stub_gateway ''authorized'')
         (scenario_body (JStr scenario_signature) JUndefined)
   \<and> snd (verifyAndCapturePayment scenario_hmac ''testsecret'' (stub_gateway ''authorized'')
            (scenario_body (JStr scenario_signature) (JNum 0))) = []
   \<and> PaymentsCapture (JStr ''pay_XYZ'') (JNum 50000) None
        \<in> set (snd (server_verify_payment scenario_hmac ''testsecret'' (stub_gateway ''authorized'')
                   (scenario_body (JStr scenario_signature) (JNum 50000))))"
proof -
  have absent: "(scenario_body (JStr scenario_signature) (JNum 0)) (''amount'' := JUndefined)
                  = scenario_body (JStr scenario_signature) JUndefined"
    by (rule ext) (simp add: scenario_body_def body_of_def)
  have zero: "(''amount'' = ''amount''
                \<and> scenario_body (JStr scenario_signature) (JNum 0) ''amount'' = JNum 0)
            \<or> (''amount'' \<in> {''razorpay_order_id'', ''razorpay_payment_id'', ''razorpay_signature''}
                \<and> scenario_body (JStr scenario_signature) (JNum 0) ''amount'' = JStr [])"
    by (simp add: scenario_body_simps)
  note rejected = zero_amount_rejected_as_missing
         [where k = "''amount''" and b = "scenario_body (JStr scenario_signature) (JNum 0)"
            and hmac = scenario_hmac and key_secret = "''testsecret''"
            and razorpay = "stub_gateway ''authorized''", OF zero, unfolded absent]
  from rejected have same:
    "server_verify_payment scenario_hmac ''testsecret'' (stub_gateway ''authorized'')
       (scenario_body (JStr scenario_signature) (JNum 0))
       = server_verify_payment scenario_hmac ''testsecret'' (stub_gateway ''authorized'')
           (scenario_body (JStr scenario_signature) JUndefined)"
    by (rule conjunct1)
  from rejected have none:
    "verifyAndCapturePayment scenario_hmac ''testsecret'' (stub_gateway ''authorized'')
       (scenario_body (JStr scenario_signature) (JNum 0))
       = (\<lparr>status_code = 400,
            body = JsonObj [(''success'', JsonBool False),
                            (''error'', JsonStr ''Missing required parameters'')]\<rparr>, [])"
    by blast
  show ?thesis
    by (simp add: none server_scenario) (rule same)
qed

section \<open>The unit of the amount\<close>

subsection \<open>Whole numbers below \<open>2\<^sup>5\<^sup>3\<close> are doubles\<close>

lemma bit_length_bounds: "0 < m \<Longrightarrow> 2 ^ (bit_length m - 1) \<le> m \<and> m < 2 ^ bit_length m"
proof (induction m rule: bit_length.induct)
  case (1 n)
  show ?case
  proof (cases "n div 2 \<le> 0")
    case True
    with 1(2) have "n = 1" by linarith
    then show ?thesis by (simp add: bit_length.simps)
  next
    case False
    then have pos: "0 < n div 2" by simp
    with 1(1) 1(2)
    have ih: "2 ^ (bit_length (n div 2) - 1) \<le> n div 2 \<and> n div 2 < 2 ^ bit_length (n div 2)"
      by simp
    have bl: "bit_length n = Suc (bit_length (n div 2))"
      using 1(2) by (subst bit_length.simps) simp
    have blpos: "0 < bit_length (n div 2)"
      using pos by (subst bit_length.simps) simp
    then obtain j where j: "bit_length (n div 2) = Suc j" by (cases "bit_length (n div 2)") auto
    from ih show ?thesis unfolding bl j by simp linarith
  qed
qed

lemma bit_length_one: "bit_length 1 = 1"
  by (simp add: bit_length.simps)

lemma round_half_even_int: "round_half_even (of_int z) = z"
  by (simp add: round_half_even_def)

lemma floor_log2_int:
  assumes "0 < m"
  shows "floor_log2 (of_int m) = int (bit_length m) - 1"
proof -
  from bit_length_bounds [OF assms] have lo: "2 ^ (bit_length m - 1) \<le> m" by simp
  have pos: "0 < bit_length m"
    using assms by (subst bit_length.simps) simp
  then have "nat (int (bit_length m) - 1) = bit_length m - 1" by simp
  moreover have "(2::rat) ^ (bit_length m - 1) \<le> of_int m"
  proof -
    have "(of_int (2 ^ (bit_length m - 1)) :: rat) \<le> of_int m"
      using lo by (simp only: of_int_le_iff)
    then show ?thesis by simp
  qed
  ultimately have "pow_int 2 (int (bit_length m) - 1) \<le> of_int m"
    using pos by (simp add: pow_int_def)
  then show ?thesis
    by (simp add: floor_log2_def quotient_of_int bit_length_one Let_def)
qed

lemma round_double_nat:
  assumes "0 < m" and "m < 2 ^ 53"
  shows "of_int (round_half_even (of_int m / pow_int 2 (max (floor_log2 (of_int m)) (- 1022) - 52)))
           * pow_int 2 (max (floor_log2 (of_int m)) (- 1022) - 52) = (of_int m :: rat)"
proof -
  define L where "L = bit_length m"
  from bit_length_bounds [OF assms(1)] have lo: "2 ^ (L - 1) \<le> m" by (simp add: L_def)
  have pos: "0 < L"
    unfolding L_def using assms(1) by (subst bit_length.simps) simp
  from lo assms(2) have "(2::int) ^ (L - 1) < 2 ^ 53" by linarith
  then have "L - 1 < 53" by (simp only: power_strict_increasing_iff)
  then have le: "L \<le> 53" by simp
  define d where "d = 53 - L"
  have e: "max (floor_log2 (of_int m)) (- 1022) = int L - 1"
    using floor_log2_int [OF assms(1)] pos by (simp add: L_def)
  have q: "pow_int 2 (int L - 1 - 52) = 1 / 2 ^ d"
    using le by (cases "L = 53") (simp_all add: pow_int_def d_def nat_diff_distrib')
  have "(of_int m :: rat) / (1 / 2 ^ d) = of_int (m * 2 ^ d)" by simp
  then have "of_int (round_half_even ((of_int m :: rat) / (1 / 2 ^ d))) * (1 / 2 ^ d)
               = (of_int m :: rat)"
    by (simp only: round_half_even_int) simp
  then show ?thesis
    by (simp only: e q)
qed

lemma round_double_int:
  assumes "\<bar>n\<bar> < 2 ^ 53"
  shows "round_double (of_int n) = JNum (of_int n)"
proof (cases "n = 0")
  case True
  then show ?thesis by (simp add: round_double_def)
next
  case False
  then have pos: "0 < \<bar>n\<bar>" by simp
  have abs: "\<bar>of_int n :: rat\<bar> = of_int \<bar>n\<bar>" by simp
  note y = round_double_nat [OF pos assms]
  have "(of_int \<bar>n\<bar> :: rat) < of_int (2 ^ 53)"
    using assms by (simp only: of_int_less_iff)
  then have small: "(pow_int 2 1024 \<le> (of_int \<bar>n\<bar> :: rat)) = False"
    by (simp add: pow_int_def)
  have nz: "((of_int n :: rat) = 0) = False" using False by simp
  have "round_double (of_int n)
          = JNum (if (of_int n :: rat) < 0 then - of_int \<bar>n\<bar> else of_int \<bar>n\<bar>)"
    unfolding round_double_def Let_def abs y by (simp only: nz small if_False)
  also have "(if (of_int n :: rat) < 0 then - of_int \<bar>n\<bar> else of_int \<bar>n\<bar>) = (of_int n :: rat)"
    by simp
  finally show ?thesis .
qed

lemma round_double_numeral:
  "numeral w < (2::int) ^ 53 \<Longrightarrow> round_double (numeral w) = JNum (numeral w)"
  using round_double_int [of "numeral w"] by simp

lemma js_times_num: "js_times str_num (JNum x) m = Inr (round_double (x * m))"
  by (simp add: js_times_def)

subsection \<open>The receipt of the scenario\<close>

lemma floor_rat_numeral: "\<lfloor>numeral a / numeral b :: rat\<rfloor> = numeral a div numeral b"
  using floor_divide_of_int_eq [of "numeral a" "numeral b", where ?'a = rat] by simp

lemma shortest_numeral:
  "shortest (numeral w) k a n =
     (let u = pow_int 10 (n - int k);
          lo = \<lfloor>a / u\<rfloor>;
          hi = lo + 1;
          below = a - of_int lo * u;
          above = of_int hi * u - a;
          ok_lo = (round_double (of_int lo * u) = JNum a);
          ok_hi = (round_double (of_int hi * u) = JNum a)
      in if ok_lo \<and> ok_hi then
           (if below < above then lo else if above < below then hi
            else if even lo then lo else hi, k)
         else if ok_lo then (lo, k)
         else if ok_hi then (hi, k)
         else shortest (pred_numeral w) (Suc k) a n)"
  by (simp only: numeral_eq_Suc shortest.simps)

lemma floor_log10_now: "floor_log10 1700000000000 = 12"
  by (simp add: floor_log10_def bit_length.simps)

lemma shortest_now: "shortest 17 (Suc 0) 1700000000000 13 = (17, 2)"
  by (simp add: shortest_numeral pow_int_def round_double_numeral floor_rat_numeral Let_def)

lemma replicate_eleven: "replicate 11 c = [c, c, c, c, c, c, c, c, c, c, c]"
  by (simp add: numeral_eq_Suc)

lemma num_to_string_now: "num_to_string 1700000000000 = ''1700000000000''"
  by (simp add: num_to_string_def floor_log10_now shortest_now format_digits_def
        dec_digits.simps digit_char_def replicate_eleven)

subsection \<open>Amounts with a fraction, and amounts beyond the doubles\<close>

text \<open>
  The literal \<^verbatim>\<open>19.99\<close> denotes the double nearest to it, and a hundred times that double
  is not 1999 but the double just below it. The literal \<^verbatim>\<open>1e308\<close> denotes a double whose
  product with 100 is beyond the largest double: the product is \<^verbatim>\<open>Infinity\<close>.
\<close>

lemma bit_length_unique:
  assumes "2 ^ k \<le> m" and "m < 2 ^ Suc k"
  shows "bit_length m = Suc k"
proof -
  have pos: "0 < m" using assms(1) by (rule less_le_trans [rotated]) simp
  from bit_length_bounds [OF pos]
  have lo: "2 ^ (bit_length m - 1) \<le> m" and hi: "m < 2 ^ bit_length m" by simp_all
  from assms(1) hi have "(2::int) ^ k < 2 ^ bit_length m" by linarith
  then have "k < bit_length m" by (simp only: power_strict_increasing_iff)
  moreover from lo assms(2) have "(2::int) ^ (bit_length m - 1) < 2 ^ Suc k" by linarith
  then have "bit_length m - 1 < Suc k" by (simp only: power_strict_increasing_iff)
  ultimately show ?thesis by simp
qed

lemma floor_log2_19_99: "floor_log2 (1999 / 100) = 4"
  by code_simp

lemma floor_log2_1999: "floor_log2 (140667119611150325 / 70368744177664) = 10"
  by code_simp

lemma amount_19_99:
  "round_double (1999 / 100) = JNum (5626684784446013 / 281474976710656)
   \<and> js_times str_num (JNum (5626684784446013 / 281474976710656)) 100
       = Inr (JNum (8791694975696895 / 4398046511104))
   \<and> (8791694975696895 / 4398046511104 :: rat) < 1999"
  by (simp add: js_times_def round_double_def round_half_even_def floor_log2_19_99
        floor_log2_1999 pow_int_def Let_def floor_rat_numeral)

lemma floor_log2_1e310:
  "floor_log2 10000000000000000109790636294404554174049230967731184633681068290315758540491149153716332897849468889906124966972117251561159028374314008832830700919814604603127166450293302718569748969958855904333838446616500117842689762621294517762809119578670745812278397017178441510529180289320787327297488571543022311833600 = 1029"
  using floor_log2_int [of "10000000000000000109790636294404554174049230967731184633681068290315758540491149153716332897849468889906124966972117251561159028374314008832830700919814604603127166450293302718569748969958855904333838446616500117842689762621294517762809119578670745812278397017178441510529180289320787327297488571543022311833600"]
    bit_length_unique [of 1029 "10000000000000000109790636294404554174049230967731184633681068290315758540491149153716332897849468889906124966972117251561159028374314008832830700919814604603127166450293302718569748969958855904333838446616500117842689762621294517762809119578670745812278397017178441510529180289320787327297488571543022311833600"]
  by simp

lemma floor_log2_1e308:
  "floor_log2 100000000000000000000000000000000000000000000000000000000000000000000000000000000000000000000000000000000000000000000000000000000000000000000000000000000000000000000000000000000000000000000000000000000000000000000000000000000000000000000000000000000000000000000000000000000000000000000000000000000000000000000 = 1023"
  using floor_log2_int [of "100000000000000000000000000000000000000000000000000000000000000000000000000000000000000000000000000000000000000000000000000000000000000000000000000000000000000000000000000000000000000000000000000000000000000000000000000000000000000000000000000000000000000000000000000000000000000000000000000000000000000000000"]
    bit_length_unique [of 1023 "100000000000000000000000000000000000000000000000000000000000000000000000000000000000000000000000000000000000000000000000000000000000000000000000000000000000000000000000000000000000000000000000000000000000000000000000000000000000000000000000000000000000000000000000000000000000000000000000000000000000000000000"]
  by simp

lemma amount_1e308:
  "round_double 100000000000000000000000000000000000000000000000000000000000000000000000000000000000000000000000000000000000000000000000000000000000000000000000000000000000000000000000000000000000000000000000000000000000000000000000000000000000000000000000000000000000000000000000000000000000000000000000000000000000000000000
     = JNum 100000000000000001097906362944045541740492309677311846336810682903157585404911491537163328978494688899061249669721172515611590283743140088328307009198146046031271664502933027185697489699588559043338384466165001178426897626212945177628091195786707458122783970171784415105291802893207873272974885715430223118336
   \<and> js_times str_num (JNum 100000000000000001097906362944045541740492309677311846336810682903157585404911491537163328978494688899061249669721172515611590283743140088328307009198146046031271664502933027185697489699588559043338384466165001178426897626212945177628091195786707458122783970171784415105291802893207873272974885715430223118336) 100 = Inr JInfinity"
  by (simp add: js_times_def round_double_def round_half_even_def floor_log2_1e308
        floor_log2_1e310 pow_int_def Let_def floor_rat_numeral)

subsection \<open>Major units on create, minor units on capture\<close>

text \<open>
  Claim C10. Every create-order request: when \<^verbatim>\<open>amount * 100\<close> has the value \<open>v\<close>, the one
  gateway call of either create-order handler is \<^verbatim>\<open>orders.create\<close> with the amount \<open>v\<close>, and
  when the product throws there is no gateway call. For an amount that is the number
  \<open>x\<close> the product is the double nearest to \<open>x \<times> 100\<close>, which is \<open>x \<times> 100\<close> itself for a
  whole number while the product stays below \<open>2\<^sup>5\<^sup>3\<close>. Every verify-payment request: the
  capture call carries the request's \<open>amount\<close> as it was submitted; it is the amount of
  the capture issued for an authorized payment, and of any capture call at all.
\<close>

theorem amount_scaled_on_create_passed_unchanged_to_capture:
  "(js_times str_num (b ''amount'') 100 = Inr v \<longrightarrow>
      snd (server_create_order str_num razorpay now b)
        = [OrdersCreate v
             (if b ''currency'' = JUndefined then JStr ''INR'' else b ''currency'')
             (''order_'' @ num_to_string (of_int now))]
      \<and> snd (createOrder str_num razorpay now b)
        = [OrdersCreate v
             (if b ''currency'' = JUndefined then JStr ''INR'' else b ''currency'')
             (''order_'' @ num_to_string (of_int now))])
   \<and> (js_times str_num (b ''amount'') 100 = Inl e \<longrightarrow>
      snd (server_create_order str_num razorpay now b) = []
      \<and> snd (createOrder str_num razorpay now b) = [])
   \<and> (b ''amount'' = JNum x \<longrightarrow>
      js_times str_num (b ''amount'') 100 = Inr (round_double (x * 100)))
   \<and> (\<bar>n * 100\<bar> < 2 ^ 53 \<longrightarrow> round_double (of_int n * 100) = JNum (of_int n * 100))
   \<and> (required_present b' \<and> payments_fetch razorpay (b' ''razorpay_payment_id'') = Inr pay
        \<and> status pay = ''authorized'' \<longrightarrow>
      (signature_matches hmac key_secret b' \<longrightarrow>
         snd (server_verify_payment hmac key_secret razorpay b')
           = [PaymentsFetch (b' ''razorpay_payment_id''),
              PaymentsCapture (b' ''razorpay_payment_id'') (b' ''amount'') None])
      \<and> (signature_matches hmac (trim key_secret) b' \<longrightarrow>
         snd (verifyAndCapturePayment hmac key_secret razorpay b')
           = [PaymentsFetch (b' ''razorpay_payment_id''),
              PaymentsCapture (b' ''razorpay_payment_id'') (b' ''amount'') (Some (currency pay))]))
   \<and> (PaymentsCapture p a c \<in> set (snd (server_verify_payment hmac key_secret razorpay b')) \<longrightarrow>
        a = b' ''amount'')
   \<and> (PaymentsCapture p a c \<in> set (snd (verifyAndCapturePayment hmac key_secret razorpay b')) \<longrightarrow>
        a = b' ''amount'')"
proof -
  have scaled: "snd (server_create_order str_num razorpay now b)
        = [OrdersCreate v
             (if b ''currency'' = JUndefined then JStr ''INR'' else b ''currency'')
             (''order_'' @ num_to_string (of_int now))]
      \<and> snd (createOrder str_num razorpay now b)
        = [OrdersCreate v
             (if b ''currency'' = JUndefined then JStr ''INR'' else b ''currency'')
             (''order_'' @ num_to_string (of_int now))]"
    if "js_times str_num (b ''amount'') 100 = Inr v"
    using that
    by (simp add: server_create_order_def createOrder_def Let_def split: sum.splits)
  have thrown: "snd (server_create_order str_num razorpay now b) = []
      \<and> snd (createOrder str_num razorpay now b) = []"
    if "js_times str_num (b ''amount'') 100 = Inl e"
    using that by (simp add: server_create_order_def createOrder_def Let_def)
  have product: "js_times str_num (b ''amount'') 100 = Inr (round_double (x * 100))"
    if "b ''amount'' = JNum x"
    using that by (simp add: js_times_num)
  have exact: "round_double (of_int n * 100) = JNum (of_int n * 100)" if "\<bar>n * 100\<bar> < 2 ^ 53"
    using round_double_int [OF that] by simp
  have server_capture: "snd (server_verify_payment hmac key_secret razorpay b')
           = [PaymentsFetch (b' ''razorpay_payment_id''),
              PaymentsCapture (b' ''razorpay_payment_id'') (b' ''amount'') None]"
    if "required_present b'" "payments_fetch razorpay (b' ''razorpay_payment_id'') = Inr pay"
       "status pay = ''authorized''" "signature_matches hmac key_secret b'"
    using that by (simp add: server_verify_match split: sum.splits)
  have controller_capture: "snd (verifyAndCapturePayment hmac key_secret razorpay b')
           = [PaymentsFetch (b' ''razorpay_payment_id''),
              PaymentsCapture (b' ''razorpay_payment_id'') (b' ''amount'') (Some (currency pay))]"
    if "required_present b'" "payments_fetch razorpay (b' ''razorpay_payment_id'') = Inr pay"
       "status pay = ''authorized''" "signature_matches hmac (trim key_secret) b'"
    using that by (simp add: controller_verify_match split: sum.splits)
  from scaled thrown product exact server_capture controller_capture
       server_capture_amount [of p a c hmac key_secret razorpay b']
       controller_capture_amount [of p a c hmac key_secret razorpay b']
  show ?thesis by blast
qed

theorem amount_scaled_on_create_passed_unchanged_to_capture_witness:
  "snd (server_create_order (\<lambda>s. JNaN) (stub_gateway ''authorized'') 1700000000000
          (body_of [(''amount'', JNum 500)]))
     = [OrdersCreate (JNum 50000) (JStr ''INR'') ''order_1700000000000'']
   \<and> snd (createOrder (\<lambda>s. JNaN) (stub_gateway ''authorized'') 1700000000000
          (body_of [(''amount'', JNum 500)]))
     = [OrdersCreate (JNum 50000) (JStr ''INR'') ''order_1700000000000'']
   \<and> snd (server_verify_payment scenario_hmac ''testsecret'' (stub_gateway ''authorized'')
          (scenario_body (JStr scenario_signature) (JNum 500)))
     = [PaymentsFetch (JStr ''pay_XYZ''), PaymentsCapture (JStr ''pay_XYZ'') (JNum 500) None]
   \<and> snd (verifyAndCapturePayment scenario_hmac ''testsecret'' (stub_gateway ''authorized'')
          (scenario_body (JStr scenario_signature) (JNum 500)))
     = [PaymentsFetch (JStr ''pay_XYZ''),
        PaymentsCapture (JStr ''pay_XYZ'') (JNum 500) (Some ''INR'')]"
proof -
  have present: "required_present (scenario_body (JStr scenario_signature) (JNum 500))"
    by (rule good_present) simp
  note units = amount_scaled_on_create_passed_unchanged_to_capture
    [where b = "body_of [(''amount'', JNum 500)]" and x = 500 and n = 500
       and v = "JNum 50000" and str_num = "\<lambda>s. JNaN"
       and razorpay = "stub_gateway ''authorized''" and now = 1700000000000
       and b' = "scenario_body (JStr scenario_signature) (JNum 500)"
       and pay = "stub_payment ''authorized'' (JStr ''pay_XYZ'')"
       and hmac = scenario_hmac and key_secret = "''testsecret''"]
  from units present show ?thesis
    by (simp add: body_of_def scenario_body_simps scenario_matches trim_testsecret
          stub_gateway_simps stub_payment_simps num_to_string_now round_double_numeral)
qed

section \<open>The capture orchestration\<close>

text \<open>
  Claim C3, as stated, has the response of an already captured payment carry
  \<open>captured: true\<close>. The controller's response has no such field: it is
  \<open>success: true\<close> with a message and the payment.
\<close>

theorem controller_already_captured_response:
  "verifyAndCapturePayment scenario_hmac ''testsecret'' (stub_gateway ''captured'')
     (scenario_body (JStr scenario_signature) (JNum 50000))
   = (\<lparr>status_code = 200,
        body = JsonObj [(''success'', JsonBool True),
                        (''message'', JsonStr ''Payment already captured''),
                        (''payment'', JsonPayment (stub_payment ''captured'' (JStr ''pay_XYZ'')))]\<rparr>,
      [PaymentsFetch (JStr ''pay_XYZ'')])
   \<and> field ''captured'' (body (fst (verifyAndCapturePayment scenario_hmac ''testsecret''
          (stub_gateway ''captured'') (scenario_body (JStr scenario_signature) (JNum 50000)))))
       = None"
  by (simp add: controller_scenario)

text \<open>
  Claim C3, amended. For a correctly signed request with all four fields, whose fetched
  payment has status \<open>captured\<close>, the only gateway call is the fetch, no capture is
  issued, and the response is a 200 carrying the fetched payment: in \<^verbatim>\<open>server.js\<close> with
  \<open>verified: true\<close> and \<open>captured: true\<close>, in the controller with \<open>success: true\<close> and
  the message "Payment already captured".
\<close>

theorem already_captured_is_success_without_capture:
  assumes "required_present b"
    and "payments_fetch razorpay (b ''razorpay_payment_id'') = Inr pay"
    and "status pay = ''captured''"
  shows "(signature_matches hmac key_secret b \<longrightarrow>
            server_verify_payment hmac key_secret razorpay b
              = (\<lparr>status_code = 200,
                   body = JsonObj [(''verified'', JsonBool True),
                                   (''captured'', JsonBool True),
                                   (''payment_id'', JsonVal (b ''razorpay_payment_id'')),
                                   (''order_id'', JsonVal (b ''razorpay_order_id'')),
                                   (''payment_details'', JsonPayment pay)]\<rparr>,
                 [PaymentsFetch (b ''razorpay_payment_id'')]))
       \<and> (signature_matches hmac (trim key_secret) b \<longrightarrow>
            verifyAndCapturePayment hmac key_secret razorpay b
              = (\<lparr>status_code = 200,
                   body = JsonObj [(''success'', JsonBool True),
                                   (''message'', JsonStr ''Payment already captured''),
                                   (''payment'', JsonPayment pay)]\<rparr>,
                 [PaymentsFetch (b ''razorpay_payment_id'')]))"
  using assms by (simp add: server_verify_match controller_verify_match)

theorem already_captured_is_success_without_capture_witness:
  "server_verify_payment scenario_hmac ''testsecret'' (stub_gateway ''captured'')
     (scenario_body (JStr scenario_signature) (JNum 50000))
   = (\<lparr>status_code = 200,
        body = JsonObj [(''verified'', JsonBool True),
                        (''captured'', JsonBool True),
                        (''payment_id'', JsonVal (JStr ''pay_XYZ'')),
                        (''order_id'', JsonVal (JStr ''order_ABC'')),
                        (''payment_details'',
                         JsonPayment (stub_payment ''captured'' (JStr ''pay_XYZ'')))]\<rparr>,
      [PaymentsFetch (JStr ''pay_XYZ'')])
   \<and> snd (verifyAndCapturePayment scenario_hmac ''testsecret'' (stub_gateway ''captured'')
            (scenario_body (JStr scenario_signature) (JNum 50000)))
     = [PaymentsFetch (JStr ''pay_XYZ'')]"
proof -
  have present: "required_present (scenario_body (JStr scenario_signature) (JNum 50000))"
    by (rule good_present) simp
  have fetched: "payments_fetch (stub_gateway ''captured'')
                   (scenario_body (JStr scenario_signature) (JNum 50000) ''razorpay_payment_id'')
                 = Inr (stub_payment ''captured'' (JStr ''pay_XYZ''))"
    by (simp add: stub_gateway_simps scenario_body_simps)
  have captured: "status (stub_payment ''captured'' (JStr ''pay_XYZ'')) = ''captured''"
    by (simp add: stub_payment_simps)
  from already_captured_is_success_without_capture
         [where hmac = scenario_hmac and key_secret = "''testsecret''", OF present fetched captured]
  show ?thesis
    by (simp add: scenario_matches trim_testsecret scenario_body_simps)
qed

text \<open>
  For a correctly signed request with all four fields, whose fetched payment has a
  status other than \<open>authorized\<close> and \<open>captured\<close>, the only gateway call of either
  handler is the fetch, and the error message names the status. The controller returns
  400. \<^verbatim>\<open>server.js\<close> throws an \<^verbatim>\<open>Error\<close> inside its inner \<^verbatim>\<open>try\<close>, and the \<^verbatim>\<open>catch\<close> of that
  block, which is the one that reports a failed capture, answers 500.
\<close>

lemma unexpected_state_responses:
  assumes "required_present b"
    and "payments_fetch razorpay (b ''razorpay_payment_id'') = Inr pay"
    and "status pay \<noteq> ''authorized''" and "status pay \<noteq> ''captured''"
  shows "(signature_matches hmac key_secret b \<longrightarrow>
            server_verify_payment hmac key_secret razorpay b
              = (\<lparr>status_code = 500,
                   body = JsonObj [(''verified'', JsonBool True),
                                   (''captured'', JsonBool False),
                                   (''error'', JsonStr (''Payment in unexpected state: ''
                                                          @ status pay))]\<rparr>,
                 [PaymentsFetch (b ''razorpay_payment_id'')]))
       \<and> (signature_matches hmac (trim key_secret) b \<longrightarrow>
            verifyAndCapturePayment hmac key_secret razorpay b
              = (\<lparr>status_code = 400,
                   body = JsonObj [(''success'', JsonBool False),
                                   (''error'', JsonStr (''Payment in invalid state: ''
                                                          @ status pay))]\<rparr>,
                 [PaymentsFetch (b ''razorpay_payment_id'')]))"
  using assms
  by (simp add: server_verify_match controller_verify_match capture_failed_def Error_def)

text \<open>
  Claim C4. A correctly signed request whose fetched payment is in an unexpected state
  is to be answered with a 400-class response that names the state, without a capture
  call. On the request of the scenario, with the payment \<open>refunded\<close>, the controller
  does so. \<^verbatim>\<open>server.js\<close> issues no capture and names the state, but its status is 500
  and its body says \<open>verified: true\<close>, \<open>captured: false\<close>: the response of a capture
  that failed, for a capture that was never attempted.
\<close>

theorem server_unexpected_state_answers_500:
  "server_verify_payment scenario_hmac ''testsecret'' (stub_gateway ''refunded'')
     (scenario_body (JStr scenario_signature) (JNum 50000))
   = (\<lparr>status_code = 500,
        body = JsonObj [(''verified'', JsonBool True),
                        (''captured'', JsonBool False),
                        (''error'', JsonStr ''Payment in unexpected state: refunded'')]\<rparr>,
      [PaymentsFetch (JStr ''pay_XYZ'')])
   \<and> verifyAndCapturePayment scenario_hmac ''testsecret'' (stub_gateway ''refunded'')
       (scenario_body (JStr scenario_signature) (JNum 50000))
     = (\<lparr>status_code = 400,
          body = JsonObj [(''success'', JsonBool False),
                          (''error'', JsonStr ''Payment in invalid state: refunded'')]\<rparr>,
        [PaymentsFetch (JStr ''pay_XYZ'')])"
  by (simp add: server_scenario controller_scenario)

section \<open>The outcomes of verify-payment\<close>

lemma payment_processing_error_shape:
  "field ''success'' (body (payment_processing_error e)) = Some (JsonBool False)
   \<and> (status_code (payment_processing_error e) = 400
        \<or> status_code (payment_processing_error e) = 500)"
  by (simp add: payment_processing_error_def Let_def)

text \<open>
  Claim C7, as stated, has the response tell the outcomes apart by the flags
  \<open>verified\<close> and \<open>captured\<close> and the status code. The controller's responses carry
  \<open>success\<close> instead and have no \<open>verified\<close> field; an invalid signature and a
  correctly signed request whose fetch the gateway refuses are both answered with 400
  and \<open>success: false\<close>.
\<close>

theorem controller_invalid_signature_has_no_verified_flag:
  "verifyAndCapturePayment scenario_hmac ''testsecret'' (stub_gateway ''authorized'')
     (scenario_body (JStr padded_key_signature) (JNum 50000))
   = (\<lparr>status_code = 400,
        body = JsonObj [(''success'', JsonBool False),
                        (''error'', JsonStr ''Invalid signature'')]\<rparr>, [])
   \<and> field ''verified'' (body (fst (verifyAndCapturePayment scenario_hmac ''testsecret''
          (stub_gateway ''authorized'') (scenario_body (JStr padded_key_signature) (JNum 50000)))))
       = None
   \<and> verifyAndCapturePayment scenario_hmac ''testsecret'' (failing_gateway unauthorized_error)
       (scenario_body (JStr scenario_signature) (JNum 50000))
     = (\<lparr>status_code = 400,
          body = JsonObj [(''success'', JsonBool False),
                          (''error'', JsonStr ''Authentication failed'')]\<rparr>,
        [PaymentsFetch (JStr ''pay_XYZ'')])"
proof -
  have "scenario_body (JStr padded_key_signature) (JNum 50000) ''razorpay_signature''
          \<noteq> JStr (expectedSign scenario_hmac (trim ''testsecret'') ''order_ABC|pay_XYZ'')"
    using signatures_differ by (simp add: scenario_body_simps trim_testsecret scenario_digest)
  with controller_verify_mismatch [OF bad_present scenario_payload]
  have refused: "verifyAndCapturePayment scenario_hmac ''testsecret'' (stub_gateway ''authorized'')
     (scenario_body (JStr padded_key_signature) (JNum 50000))
   = (\<lparr>status_code = 400,
        body = JsonObj [(''success'', JsonBool False),
                        (''error'', JsonStr ''Invalid signature'')]\<rparr>, [])"
    by simp
  have good: "required_present (scenario_body (JStr scenario_signature) (JNum 50000))"
    by (rule good_present) simp
  have failed: "verifyAndCapturePayment scenario_hmac ''testsecret''
       (failing_gateway unauthorized_error)
       (scenario_body (JStr scenario_signature) (JNum 50000))
     = (\<lparr>status_code = 400,
          body = JsonObj [(''success'', JsonBool False),
                          (''error'', JsonStr ''Authentication failed'')]\<rparr>,
        [PaymentsFetch (JStr ''pay_XYZ'')])"
    by (simp add: controller_verify_match [OF good] trim_testsecret scenario_matches
          scenario_body_simps failing_gateway_simps payment_processing_error_def
          unauthorized_error_def)
  from refused failed show ?thesis by simp
qed

text \<open>
  Claim C7, amended. For a request with all four fields, \<^verbatim>\<open>server.js\<close> answers: 400 with
  \<open>verified: false\<close> when the signature differs from the expected digest; 500 with
  \<open>verified: true\<close>, \<open>captured: false\<close> when the signature matches and the fetch or the
  capture fails; 200 with \<open>verified: true\<close>, \<open>captured: true\<close>, the two identifiers
  and the payment when the signature matches and the payment is captured by this
  request or was captured already. The controller answers the same three situations
  with \<open>success: false\<close> and 400, with \<open>success: false\<close> and 400 or 500, and with
  \<open>success: true\<close>, a message and the payment and 200.
\<close>

theorem verify_response_outcomes:
  assumes "required_present b"
  shows "(sign_payload (b ''razorpay_order_id'') (b ''razorpay_payment_id'') = Inr sign
          \<and> b ''razorpay_signature'' \<noteq> JStr (expectedSign hmac key_secret sign) \<longrightarrow>
            server_verify_payment hmac key_secret razorpay b
              = (\<lparr>status_code = 400,
                   body = JsonObj [(''verified'', JsonBool False),
                                   (''error'', JsonStr ''Invalid signature'')]\<rparr>, []))
       \<and> (signature_matches hmac key_secret b
          \<and> (payments_fetch razorpay (b ''razorpay_payment_id'') = Inl e
               \<or> payments_fetch razorpay (b ''razorpay_payment_id'') = Inr pay
                  \<and> status pay = ''authorized''
                  \<and> payments_capture razorpay (b ''razorpay_payment_id'') (b ''amount'') None
                      = Inl e) \<longrightarrow>
            fst (server_verify_payment hmac key_secret razorpay b)
              = \<lparr>status_code = 500,
                  body = JsonObj [(''verified'', JsonBool True),
                                  (''captured'', JsonBool False),
                                  (''error'', JsonStr (or_else (message e)
                                                         ''Payment verified but capture failed''))]\<rparr>)
       \<and> (signature_matches hmac key_secret b
          \<and> payments_fetch razorpay (b ''razorpay_payment_id'') = Inr pay
          \<and> (status pay = ''captured'' \<and> details = pay
               \<or> status pay = ''authorized''
                  \<and> payments_capture razorpay (b ''razorpay_payment_id'') (b ''amount'') None
                      = Inr details) \<longrightarrow>
            fst (server_verify_payment hmac key_secret razorpay b)
              = \<lparr>status_code = 200,
                  body = JsonObj [(''verified'', JsonBool True),
                                  (''captured'', JsonBool True),
                                  (''payment_id'', JsonVal (b ''razorpay_payment_id'')),
                                  (''order_id'', JsonVal (b ''razorpay_order_id'')),
                                  (''payment_details'', JsonPayment details)]\<rparr>)
       \<and> (sign_payload (b ''razorpay_order_id'') (b ''razorpay_payment_id'') = Inr sign
          \<and> b ''razorpay_signature'' \<noteq> JStr (expectedSign hmac (trim key_secret) sign) \<longrightarrow>
            verifyAndCapturePayment hmac key_secret razorpay b
              = (\<lparr>status_code = 400,
                   body = JsonObj [(''success'', JsonBool False),
                                   (''error'', JsonStr ''Invalid signature'')]\<rparr>, []))
       \<and> (signature_matches hmac (trim key_secret) b
          \<and> (payments_fetch razorpay (b ''razorpay_payment_id'') = Inl e
               \<or> payments_fetch razorpay (b ''razorpay_payment_id'') = Inr pay
                  \<and> status pay = ''authorized''
                  \<and> payments_capture razorpay (b ''razorpay_payment_id'') (b ''amount'')
                        (Some (currency pay)) = Inl e) \<longrightarrow>
            fst (verifyAndCapturePayment hmac key_secret razorpay b) = payment_processing_error e
            \<and> field ''success'' (body (fst (verifyAndCapturePayment hmac key_secret razorpay b)))
                = Some (JsonBool False)
            \<and> (status_code (fst (verifyAndCapturePayment hmac key_secret razorpay b)) = 400
                 \<or> status_code (fst (verifyAndCapturePayment hmac key_secret razorpay b)) = 500))
       \<and> (signature_matches hmac (trim key_secret) b
          \<and> payments_fetch razorpay (b ''razorpay_payment_id'') = Inr pay
          \<and> (status pay = ''captured'' \<and> details = pay \<and> msg = ''Payment already captured''
               \<or> status pay = ''authorized''
                  \<and> payments_capture razorpay (b ''razorpay_payment_id'') (b ''amount'')
                        (Some (currency pay)) = Inr details
                  \<and> msg = ''Payment captured successfully'') \<longrightarrow>
            fst (verifyAndCapturePayment hmac key_secret razorpay b)
              = \<lparr>status_code = 200,
                  body = JsonObj [(''success'', JsonBool True),
                                  (''message'', JsonStr msg),
                                  (''payment'', JsonPayment details)]\<rparr>)"
proof -
  note server = server_verify_match [OF assms, of hmac key_secret razorpay]
  note controller = controller_verify_match [OF assms, of hmac key_secret razorpay]
  have s_a: "server_verify_payment hmac key_secret razorpay b
              = (\<lparr>status_code = 400,
                   body = JsonObj [(''verified'', JsonBool False),
                                   (''error'', JsonStr ''Invalid signature'')]\<rparr>, [])"
    if "sign_payload (b ''razorpay_order_id'') (b ''razorpay_payment_id'') = Inr sign"
       "b ''razorpay_signature'' \<noteq> JStr (expectedSign hmac key_secret sign)"
    using that by (simp add: server_verify_mismatch [OF assms])
  have c_a: "verifyAndCapturePayment hmac key_secret razorpay b
              = (\<lparr>status_code = 400,
                   body = JsonObj [(''success'', JsonBool False),
                                   (''error'', JsonStr ''Invalid signature'')]\<rparr>, [])"
    if "sign_payload (b ''razorpay_order_id'') (b ''razorpay_payment_id'') = Inr sign"
       "b ''razorpay_signature'' \<noteq> JStr (expectedSign hmac (trim key_secret) sign)"
    using that by (simp add: controller_verify_mismatch [OF assms])
  have s_b: "fst (server_verify_payment hmac key_secret razorpay b)
              = \<lparr>status_code = 500,
                  body = JsonObj [(''verified'', JsonBool True),
                                  (''captured'', JsonBool False),
                                  (''error'', JsonStr (or_else (message e)
                                                         ''Payment verified but capture failed''))]\<rparr>"
    if "signature_matches hmac key_secret b"
       "payments_fetch razorpay (b ''razorpay_payment_id'') = Inl e
        \<or> payments_fetch razorpay (b ''razorpay_payment_id'') = Inr pay
           \<and> status pay = ''authorized''
           \<and> payments_capture razorpay (b ''razorpay_payment_id'') (b ''amount'') None = Inl e"
    using that by (auto simp add: server capture_failed_def)
  have s_c: "fst (server_verify_payment hmac key_secret razorpay b)
              = \<lparr>status_code = 200,
                  body = JsonObj [(''verified'', JsonBool True),
                                  (''captured'', JsonBool True),
                                  (''payment_id'', JsonVal (b ''razorpay_payment_id'')),
                                  (''order_id'', JsonVal (b ''razorpay_order_id'')),
                                  (''payment_details'', JsonPayment details)]\<rparr>"
    if "signature_matches hmac key_secret b"
       "payments_fetch razorpay (b ''razorpay_payment_id'') = Inr pay"
       "status pay = ''captured'' \<and> details = pay
        \<or> status pay = ''authorized''
           \<and> payments_capture razorpay (b ''razorpay_payment_id'') (b ''amount'') None
               = Inr details"
    using that by (auto simp add: server)
  have c_b: "fst (verifyAndCapturePayment hmac key_secret razorpay b) = payment_processing_error e"
    if "signature_matches hmac (trim key_secret) b"
       "payments_fetch razorpay (b ''razorpay_payment_id'') = Inl e
        \<or> payments_fetch razorpay (b ''razorpay_payment_id'') = Inr pay
           \<and> status pay = ''authorized''
           \<and> payments_capture razorpay (b ''razorpay_payment_id'') (b ''amount'')
                 (Some (currency pay)) = Inl e"
    using that by (auto simp add: controller)
  have c_c: "fst (verifyAndCapturePayment hmac key_secret razorpay b)
              = \<lparr>status_code = 200,
                  body = JsonObj [(''success'', JsonBool True),
                                  (''message'', JsonStr msg),
                                  (''payment'', JsonPayment details)]\<rparr>"
    if "signature_matches hmac (trim key_secret) b"
       "payments_fetch razorpay (b ''razorpay_payment_id'') = Inr pay"
       "status pay = ''captured'' \<and> details = pay \<and> msg = ''Payment already captured''
        \<or> status pay = ''authorized''
           \<and> payments_capture razorpay (b ''razorpay_payment_id'') (b ''amount'')
                 (Some (currency pay)) = Inr details
           \<and> msg = ''Payment captured successfully''"
    using that by (auto simp add: controller)
  from s_a s_b s_c c_a c_b c_c payment_processing_error_shape [of e]
  show ?thesis by (intro conjI impI) (simp_all only: , blast+)
qed

theorem verify_response_outcomes_witness:
  "server_verify_payment scenario_hmac ''testsecret'' (stub_gateway ''authorized'')
     (scenario_body (JStr padded_key_signature) (JNum 50000))
   = (\<lparr>status_code = 400,
        body = JsonObj [(''verified'', JsonBool False),
                        (''error'', JsonStr ''Invalid signature'')]\<rparr>, [])
   \<and> fst (server_verify_payment scenario_hmac ''testsecret'' (failing_gateway unauthorized_error)
            (scenario_body (JStr scenario_signature) (JNum 50000)))
     = \<lparr>status_code = 500,
         body = JsonObj [(''verified'', JsonBool True),
                         (''captured'', JsonBool False),
                         (''error'', JsonStr ''Payment verified but capture failed'')]\<rparr>
   \<and> fst (server_verify_payment scenario_hmac ''testsecret'' (stub_gateway ''authorized'')
            (scenario_body (JStr scenario_signature) (JNum 50000)))
     = \<lparr>status_code = 200,
         body = JsonObj [(''verified'', JsonBool True),
                         (''captured'', JsonBool True),
                         (''payment_id'', JsonVal (JStr ''pay_XYZ'')),
                         (''order_id'', JsonVal (JStr ''order_ABC'')),
                         (''payment_details'',
                          JsonPayment (stub_payment ''captured'' (JStr ''pay_XYZ'')))]\<rparr>
   \<and> fst (verifyAndCapturePayment scenario_hmac ''testsecret'' (failing_gateway unauthorized_error)
            (scenario_body (JStr scenario_signature) (JNum 50000)))
     = \<lparr>status_code = 400,
         body = JsonObj [(''success'', JsonBool False),
                         (''error'', JsonStr ''Authentication failed'')]\<rparr>
   \<and> fst (verifyAndCapturePayment scenario_hmac ''testsecret'' (stub_gateway ''captured'')
            (scenario_body (JStr scenario_signature) (JNum 50000)))
     = \<lparr>status_code = 200,
         body = JsonObj [(''success'', JsonBool True),
                         (''message'', JsonStr ''Payment already captured''),
                         (''payment'', JsonPayment (stub_payment ''captured'' (JStr ''pay_XYZ'')))]\<rparr>"
proof -
  have good: "required_present (scenario_body (JStr scenario_signature) (JNum 50000))"
    by (rule good_present) simp
  have differ: "padded_key_signature \<noteq> scenario_signature"
    using signatures_differ by simp
  note outcomes = verify_response_outcomes
    [where hmac = scenario_hmac and key_secret = "''testsecret''"
       and sign = "''order_ABC|pay_XYZ''" and e = unauthorized_error
       and details = "stub_payment ''captured'' (JStr ''pay_XYZ'')"
       and msg = "''Payment already captured''"]
  note mismatch = outcomes
    [where b = "scenario_body (JStr padded_key_signature) (JNum 50000)"
       and razorpay = "stub_gateway ''authorized''"
       and pay = "stub_payment ''authorized'' (JStr ''pay_XYZ'')", OF bad_present]
  note failure = outcomes
    [where b = "scenario_body (JStr scenario_signature) (JNum 50000)"
       and razorpay = "failing_gateway unauthorized_error"
       and pay = "stub_payment ''authorized'' (JStr ''pay_XYZ'')", OF good]
  note captured = outcomes
    [where b = "scenario_body (JStr scenario_signature) (JNum 50000)"
       and razorpay = "stub_gateway ''authorized''"
       and pay = "stub_payment ''authorized'' (JStr ''pay_XYZ'')", OF good]
  note already = outcomes
    [where b = "scenario_body (JStr scenario_signature) (JNum 50000)"
       and razorpay = "stub_gateway ''captured''"
       and pay = "stub_payment ''captured'' (JStr ''pay_XYZ'')", OF good]
  have processing: "payment_processing_error unauthorized_error
     = \<lparr>status_code = 400,
         body = JsonObj [(''success'', JsonBool False),
                         (''error'', JsonStr ''Authentication failed'')]\<rparr>"
    by (simp add: payment_processing_error_def unauthorized_error_def)
  have unnamed: "message unauthorized_error = None"
    by (simp add: unauthorized_error_def)
  from mismatch differ have a:
    "server_verify_payment scenario_hmac ''testsecret'' (stub_gateway ''authorized'')
       (scenario_body (JStr padded_key_signature) (JNum 50000))
     = (\<lparr>status_code = 400,
          body = JsonObj [(''verified'', JsonBool False),
                          (''error'', JsonStr ''Invalid signature'')]\<rparr>, [])"
    by (simp add: sign_payload_def scenario_digest scenario_body_simps)
  from failure have b:
    "fst (server_verify_payment scenario_hmac ''testsecret'' (failing_gateway unauthorized_error)
            (scenario_body (JStr scenario_signature) (JNum 50000)))
     = \<lparr>status_code = 500,
         body = JsonObj [(''verified'', JsonBool True),
                         (''captured'', JsonBool False),
                         (''error'', JsonStr ''Payment verified but capture failed'')]\<rparr>"
    and b': "fst (verifyAndCapturePayment scenario_hmac ''testsecret''
                    (failing_gateway unauthorized_error)
                    (scenario_body (JStr scenario_signature) (JNum 50000)))
     = \<lparr>status_code = 400,
         body = JsonObj [(''success'', JsonBool False),
                         (''error'', JsonStr ''Authentication failed'')]\<rparr>"
    by (simp_all add: scenario_matches trim_testsecret failing_gateway_simps unnamed processing)
  from captured have c:
    "fst (server_verify_payment scenario_hmac ''testsecret'' (stub_gateway ''authorized'')
            (scenario_body (JStr scenario_signature) (JNum 50000)))
     = \<lparr>status_code = 200,
         body = JsonObj [(''verified'', JsonBool True),
                         (''captured'', JsonBool True),
                         (''payment_id'', JsonVal (JStr ''pay_XYZ'')),
                         (''order_id'', JsonVal (JStr ''order_ABC'')),
                         (''payment_details'',
                          JsonPayment (stub_payment ''captured'' (JStr ''pay_XYZ'')))]\<rparr>"
    by (simp add: scenario_matches scenario_body_simps stub_gateway_simps stub_payment_simps)
  from already have c':
    "fst (verifyAndCapturePayment scenario_hmac ''testsecret'' (stub_gateway ''captured'')
            (scenario_body (JStr scenario_signature) (JNum 50000)))
     = \<lparr>status_code = 200,
         body = JsonObj [(''success'', JsonBool True),
                         (''message'', JsonStr ''Payment already captured''),
                         (''payment'', JsonPayment (stub_payment ''captured'' (JStr ''pay_XYZ'')))]\<rparr>"
    by (simp add: scenario_matches trim_testsecret scenario_body_simps stub_gateway_simps
          stub_payment_simps)
  from a b c b' c' show ?thesis by (intro conjI)
qed

section \<open>The listing of payments\<close>

text \<open>
  Claim C8, as stated, has the listing answer a credential failure with 401. The
  controller's \<^verbatim>\<open>getAllPayments\<close> has neither the timer nor the status mapping: it
  answers every failure with 500.
\<close>

theorem controller_listing_answers_500_to_credential_failure:
  "getAllPayments (failing_gateway unauthorized_error) 1700000000000
   = (\<lparr>status_code = 500,
        body = JsonObj [(''success'', JsonBool False),
                        (''error'', JsonStr ''Failed to fetch payments'')]\<rparr>,
      [PaymentsAll 1697408000 1700000000 50 0])"
  by (simp add: getAllPayments_def listing_options_def failing_gateway_simps
        unauthorized_error_def)

text \<open>
  Claim C8, amended. Both listing handlers issue one \<^verbatim>\<open>payments.all\<close> call for the last
  thirty days. In \<^verbatim>\<open>server.js\<close> the call is raced against the timer: when the timer
  wins the answer is 504; otherwise a rejection with \<open>statusCode\<close> 401 is answered with
  401, a rejection whose message is itself "Request timed out" with 504, every other
  rejection and an empty result with 500, and a listing with 200 and
  \<open>{success: true, data: {count, items}}\<close>. The controller has no timer and answers
  every failure with 500 and a listing with the same 200 body.
\<close>

theorem listing_outcomes:
  "snd (server_get_payments razorpay now timer_first)
     = [PaymentsAll ((now - 2592000000) div 1000) (now div 1000) 50 0]
   \<and> snd (getAllPayments razorpay now)
     = [PaymentsAll ((now - 2592000000) div 1000) (now div 1000) 50 0]
   \<and> (timer_first \<longrightarrow>
        fst (server_get_payments razorpay now timer_first)
          = \<lparr>status_code = 504,
              body = JsonObj [(''success'', JsonBool False),
                              (''error'', JsonStr ''Request to Razorpay timed out'')]\<rparr>)
   \<and> (timer_first = False
        \<and> payments_all razorpay ((now - 2592000000) div 1000) (now div 1000) 50 0 = Inl e \<longrightarrow>
        (statusCode e = Some 401 \<longrightarrow>
           fst (server_get_payments razorpay now timer_first)
             = \<lparr>status_code = 401,
                 body = JsonObj [(''success'', JsonBool False),
                                 (''error'', JsonStr ''Invalid Razorpay credentials'')]\<rparr>)
        \<and> (statusCode e \<noteq> Some 401 \<and> message e = Some ''Request timed out'' \<longrightarrow>
           fst (server_get_payments razorpay now timer_first)
             = \<lparr>status_code = 504,
                 body = JsonObj [(''success'', JsonBool False),
                                 (''error'', JsonStr ''Request to Razorpay timed out'')]\<rparr>)
        \<and> (statusCode e \<noteq> Some 401 \<and> message e \<noteq> Some ''Request timed out'' \<longrightarrow>
           fst (server_get_payments razorpay now timer_first)
             = \<lparr>status_code = 500,
                 body = JsonObj [(''success'', JsonBool False),
                                 (''error'', JsonStr (or_else (message e)
                                                        ''Failed to fetch payments'')),
                                 (''details'', error_details e)]\<rparr>))
   \<and> (timer_first = False
        \<and> payments_all razorpay ((now - 2592000000) div 1000) (now div 1000) 50 0 = Inr None \<longrightarrow>
        fst (server_get_payments razorpay now timer_first)
          = \<lparr>status_code = 500,
              body = JsonObj [(''success'', JsonBool False),
                              (''error'', JsonStr ''No response from Razorpay''),
                              (''details'', JsonNull)]\<rparr>)
   \<and> (timer_first = False
        \<and> payments_all razorpay ((now - 2592000000) div 1000) (now div 1000) 50 0
            = Inr (Some payments) \<longrightarrow>
        fst (server_get_payments razorpay now timer_first)
          = \<lparr>status_code = 200,
              body = JsonObj [(''success'', JsonBool True),
                              (''data'',
                               JsonObj [(''count'', JsonVal (count payments)),
                                        (''items'',
                                         JsonPayments (case items payments of
                                                         None \<Rightarrow> []
                                                       | Some ps \<Rightarrow> ps))])]\<rparr>)
   \<and> (payments_all razorpay ((now - 2592000000) div 1000) (now div 1000) 50 0 = Inl e \<longrightarrow>
        fst (getAllPayments razorpay now)
          = \<lparr>status_code = 500,
              body = JsonObj [(''success'', JsonBool False),
                              (''error'', JsonStr (or_else (message e)
                                                     ''Failed to fetch payments''))]\<rparr>)
   \<and> (payments_all razorpay ((now - 2592000000) div 1000) (now div 1000) 50 0 = Inr None \<longrightarrow>
        fst (getAllPayments razorpay now)
          = \<lparr>status_code = 500,
              body = JsonObj [(''success'', JsonBool False),
                              (''error'', JsonStr ''No response from Razorpay'')]\<rparr>)
   \<and> (payments_all razorpay ((now - 2592000000) div 1000) (now div 1000) 50 0
          = Inr (Some payments) \<longrightarrow>
        fst (getAllPayments razorpay now)
          = \<lparr>status_code = 200,
              body = JsonObj [(''success'', JsonBool True),
                              (''data'',
                               JsonObj [(''count'', JsonVal (count payments)),
                                        (''items'',
                                         JsonPayments (case items payments of
                                                         None \<Rightarrow> []
                                                       | Some ps \<Rightarrow> ps))])]\<rparr>)"
proof -
  have timed_out: "payments_failed (Error ''Request timed out'')
     = \<lparr>status_code = 504,
         body = JsonObj [(''success'', JsonBool False),
                         (''error'', JsonStr ''Request to Razorpay timed out'')]\<rparr>"
    by (simp add: payments_failed_def Error_def)
  have no_response: "payments_failed (Error ''No response from Razorpay'')
     = \<lparr>status_code = 500,
         body = JsonObj [(''success'', JsonBool False),
                         (''error'', JsonStr ''No response from Razorpay''),
                         (''details'', JsonNull)]\<rparr>"
    by (simp add: payments_failed_def Error_def error_details_def)
  have no_response': "or_else (message (Error ''No response from Razorpay'')) dflt
                        = ''No response from Razorpay''" for dflt
    by (simp add: Error_def)
  show ?thesis
    by (cases timer_first)
       (simp_all add: server_get_payments_def getAllPayments_def listing_options_def timed_out
          no_response no_response' payments_ok_def Let_def,
        auto simp add: payments_failed_def split: sum.splits option.splits)
qed

theorem listing_outcomes_witness:
  "fst (server_get_payments (stub_gateway ''captured'') 1700000000000 True)
     = \<lparr>status_code = 504,
         body = JsonObj [(''success'', JsonBool False),
                         (''error'', JsonStr ''Request to Razorpay timed out'')]\<rparr>
   \<and> fst (server_get_payments (failing_gateway unauthorized_error) 1700000000000 False)
     = \<lparr>status_code = 401,
         body = JsonObj [(''success'', JsonBool False),
                         (''error'', JsonStr ''Invalid Razorpay credentials'')]\<rparr>
   \<and> fst (server_get_payments (failing_gateway (Error ''getaddrinfo ENOTFOUND''))
            1700000000000 False)
     = \<lparr>status_code = 500,
         body = JsonObj [(''success'', JsonBool False),
                         (''error'', JsonStr ''getaddrinfo ENOTFOUND''),
                         (''details'', JsonNull)]\<rparr>
   \<and> server_get_payments (stub_gateway ''captured'') 1700000000000 False
     = (\<lparr>status_code = 200,
          body = JsonObj [(''success'', JsonBool True),
                          (''data'',
                           JsonObj [(''count'', JsonVal (JNum 1)),
                                    (''items'',
                                     JsonPayments [stub_payment ''captured''
                                                     (JStr ''pay_XYZ'')])])]\<rparr>,
        [PaymentsAll 1697408000 1700000000 50 0])
   \<and> fst (getAllPayments (failing_gateway (Error ''getaddrinfo ENOTFOUND'')) 1700000000000)
     = \<lparr>status_code = 500,
         body = JsonObj [(''success'', JsonBool False),
                         (''error'', JsonStr ''getaddrinfo ENOTFOUND'')]\<rparr>"
proof -
  note timer = listing_outcomes
    [where razorpay = "stub_gateway ''captured''" and now = 1700000000000 and timer_first = True
       and e = unauthorized_error
       and payments = "\<lparr>count = JNum 1, items = Some [stub_payment ''captured'' (JStr ''pay_XYZ'')]\<rparr>"]
  note refused = listing_outcomes
    [where razorpay = "failing_gateway unauthorized_error" and now = 1700000000000
       and timer_first = False and e = unauthorized_error
       and payments = "\<lparr>count = JNum 1, items = Some [stub_payment ''captured'' (JStr ''pay_XYZ'')]\<rparr>"]
  note unreachable = listing_outcomes
    [where razorpay = "failing_gateway (Error ''getaddrinfo ENOTFOUND'')" and now = 1700000000000
       and timer_first = False and e = "Error ''getaddrinfo ENOTFOUND''"
       and payments = "\<lparr>count = JNum 1, items = Some [stub_payment ''captured'' (JStr ''pay_XYZ'')]\<rparr>"]
  note listed = listing_outcomes
    [where razorpay = "stub_gateway ''captured''" and now = 1700000000000 and timer_first = False
       and e = unauthorized_error
       and payments = "\<lparr>count = JNum 1, items = Some [stub_payment ''captured'' (JStr ''pay_XYZ'')]\<rparr>"]
  from timer have a:
    "fst (server_get_payments (stub_gateway ''captured'') 1700000000000 True)
     = \<lparr>status_code = 504,
         body = JsonObj [(''success'', JsonBool False),
                         (''error'', JsonStr ''Request to Razorpay timed out'')]\<rparr>"
    by simp
  from refused have b:
    "fst (server_get_payments (failing_gateway unauthorized_error) 1700000000000 False)
     = \<lparr>status_code = 401,
         body = JsonObj [(''success'', JsonBool False),
                         (''error'', JsonStr ''Invalid Razorpay credentials'')]\<rparr>"
    by (simp add: failing_gateway_simps unauthorized_error_def)
  from unreachable have c:
    "fst (server_get_payments (failing_gateway (Error ''getaddrinfo ENOTFOUND''))
            1700000000000 False)
     = \<lparr>status_code = 500,
         body = JsonObj [(''success'', JsonBool False),
                         (''error'', JsonStr ''getaddrinfo ENOTFOUND''),
                         (''details'', JsonNull)]\<rparr>"
    and e:
    "fst (getAllPayments (failing_gateway (Error ''getaddrinfo ENOTFOUND'')) 1700000000000)
     = \<lparr>status_code = 500,
         body = JsonObj [(''success'', JsonBool False),
                         (''error'', JsonStr ''getaddrinfo ENOTFOUND'')]\<rparr>"
    by (simp_all add: failing_gateway_simps Error_def error_details_def)
  from listed have d:
    "server_get_payments (stub_gateway ''captured'') 1700000000000 False
     = (\<lparr>status_code = 200,
          body = JsonObj [(''success'', JsonBool True),
                          (''data'',
                           JsonObj [(''count'', JsonVal (JNum 1)),
                                    (''items'',
                                     JsonPayments [stub_payment ''captured''
                                                     (JStr ''pay_XYZ'')])])]\<rparr>,
        [PaymentsAll 1697408000 1700000000 50 0])"
    by (simp add: stub_gateway_simps prod_eq_iff)
  from a b c d e show ?thesis by (intro conjI)
qed

section \<open>The key of the HMAC\<close>

lemma dropWhile_self: "xs = [] \<or> \<not> P (hd xs) \<Longrightarrow> dropWhile P xs = xs"
  by (cases xs) auto

lemma last_dropWhile_nonempty: "dropWhile P xs \<noteq> [] \<Longrightarrow> last (dropWhile P xs) = last xs"
  by (induction xs) (auto split: if_splits)

lemma trim_idem: "trim (trim s) = trim s"
proof -
  define t where "t = dropWhile is_white_space s"
  define u where "u = dropWhile is_white_space (rev t)"
  have front: "dropWhile is_white_space (rev u) = rev u"
  proof (cases "u = []")
    case True
    then show ?thesis by simp
  next
    case False
    then have "last u = last (rev t)"
      unfolding u_def by (rule last_dropWhile_nonempty)
    moreover from False have "t \<noteq> []" unfolding u_def by auto
    ultimately have "last u = hd t" by (simp add: last_rev)
    moreover from \<open>t \<noteq> []\<close> have "\<not> is_white_space (hd t)"
      unfolding t_def by (rule hd_dropWhile)
    ultimately have "\<not> is_white_space (hd (rev u))"
      using False by (simp add: hd_rev)
    then show ?thesis by (simp add: dropWhile_self)
  qed
  have "trim s = rev u" by (simp add: trim_def t_def u_def)
  moreover have "trim (rev u) = rev u"
    by (simp add: trim_def front) (simp add: u_def)
  ultimately show ?thesis by simp
qed

lemma controller_key_trimmed:
  "verifyAndCapturePayment hmac (trim key_secret) razorpay b
     = verifyAndCapturePayment hmac key_secret razorpay b"
  unfolding verifyAndCapturePayment_def trim_idem by (rule refl)

text \<open>
  Claim C5. The controller computes the expected signature under the trimmed secret, so
  a secret and its trimmed value give the same handler. \<^verbatim>\<open>server.js\<close> does not: with
  \<^verbatim>\<open>RAZORPAY_KEY_SECRET\<close> set to \<^verbatim>\<open>"testsecret "\<close> (a trailing space) its SDK client is
  built with the trimmed secret, but its verify-payment handler computes the HMAC under
  the untrimmed one, and the scenario request signed under \<^verbatim>\<open>testsecret\<close> is refused
  with 400 "Invalid signature", where the controller goes on to capture.
\<close>

theorem server_hmac_key_not_trimmed:
  "verifyAndCapturePayment hmac (trim key_secret) razorpay b
     = verifyAndCapturePayment hmac key_secret razorpay b
   \<and> init_razorpay (Some ''rzp_test_key'') (Some ''testsecret '')
     = Some (''rzp_test_key'', ''testsecret'')
   \<and> server_verify_payment scenario_hmac ''testsecret '' (stub_gateway ''authorized'')
       (scenario_body (JStr scenario_signature) (JNum 50000))
     = (\<lparr>status_code = 400,
          body = JsonObj [(''verified'', JsonBool False),
                          (''error'', JsonStr ''Invalid signature'')]\<rparr>, [])
   \<and> snd (verifyAndCapturePayment scenario_hmac ''testsecret '' (stub_gateway ''authorized'')
            (scenario_body (JStr scenario_signature) (JNum 50000)))
     = [PaymentsFetch (JStr ''pay_XYZ''),
        PaymentsCapture (JStr ''pay_XYZ'') (JNum 50000) (Some ''INR'')]"
proof -
  have good: "required_present (scenario_body (JStr scenario_signature) (JNum 50000))"
    by (rule good_present) simp
  have client: "init_razorpay (Some ''rzp_test_key'') (Some ''testsecret '')
                  = Some (''rzp_test_key'', ''testsecret'')"
    by (simp add: init_razorpay_def trim_def is_white_space_def)
  have "scenario_body (JStr scenario_signature) (JNum 50000) ''razorpay_signature''
          \<noteq> JStr (expectedSign scenario_hmac ''testsecret '' ''order_ABC|pay_XYZ'')"
    using signatures_differ by (simp add: scenario_body_simps padded_digest)
  with server_verify_mismatch [OF good scenario_payload]
  have server: "server_verify_payment scenario_hmac ''testsecret '' (stub_gateway ''authorized'')
       (scenario_body (JStr scenario_signature) (JNum 50000))
     = (\<lparr>status_code = 400,
          body = JsonObj [(''verified'', JsonBool False),
                          (''error'', JsonStr ''Invalid signature'')]\<rparr>, [])"
    by simp
  have controller: "snd (verifyAndCapturePayment scenario_hmac ''testsecret ''
            (stub_gateway ''authorized'') (scenario_body (JStr scenario_signature) (JNum 50000)))
     = [PaymentsFetch (JStr ''pay_XYZ''),
        PaymentsCapture (JStr ''pay_XYZ'') (JNum 50000) (Some ''INR'')]"
    by (simp add: controller_verify_match [OF good] trim_testsecret scenario_matches
          scenario_body_simps stub_gateway_simps stub_payment_simps)
  from controller_key_trimmed [of hmac key_secret razorpay b] client server controller
  show ?thesis by (intro conjI)
qed

end
